theory Spec2Isabelle
  imports Complex_Main
begin

section \<open>Numbers, errors and the two library calls of \<^verbatim>\<open>src/app.py\<close>\<close>

text \<open>
  The strategy functions \<^verbatim>\<open>backtest_stock\<close> and \<^verbatim>\<open>backtest_futures\<close> compute with
  Python floats. The model computes with exact reals: rounding error, overflow and the
  infinities of IEEE arithmetic are outside it. A price for which \<^verbatim>\<open>pd.isna\<close> holds
  (NaN, None) is \<open>None\<close>; every other price is \<open>Some p\<close>. The lot counter of the
  futures engine is a Python \<^verbatim>\<open>int\<close>, hence an \<open>int\<close> here.

  Exceptions are values. \<open>ValueError\<close> is what \<^verbatim>\<open>pd.Series(data, index=...)\<close> raises
  when the list and the index differ in length, \<open>ZeroDivisionError\<close> what a float
  division by zero raises, \<open>TypeError\<close> what arithmetic on \<^verbatim>\<open>None\<close> raises.
\<close>

datatype error = ValueError | ZeroDivisionError | TypeError

text \<open>
  \<^verbatim>\<open>round(x, n)\<close> on the exact value: the nearest multiple of \<open>10\<^sup>-\<^sup>n\<close>, a tie going
  to the even one.
\<close>

definition py_round :: "real \<Rightarrow> nat \<Rightarrow> real" where
  "py_round x n =
     (let y = x * 10 ^ n; f = \<lfloor>y\<rfloor>; r = y - of_int f
      in of_int (if r < 1 / 2 then f else if 1 / 2 < r then f + 1
                 else if even f then f else f + 1) / 10 ^ n)"

text \<open>
  \<^verbatim>\<open>pd.Series(equity, index=prices.index)\<close> (lines 85 and 149): pandas pairs the list
  with the index and refuses a list whose length is not the index's.
\<close>

definition pd_Series :: "real list \<Rightarrow> 'd list \<Rightarrow> error + ('d \<times> real) list" where
  "pd_Series data index =
     (if length data = length index then Inr (zip index data) else Inl ValueError)"

section \<open>Trades and the state of a run\<close>

datatype action = BUY_INIT | BUY_ADD | SELL_ALL

text \<open>
  A trade is the dictionary appended to \<^verbatim>\<open>trades\<close>. A key the dictionary does not have
  (\<^verbatim>\<open>"pnl"\<close> of a buy, \<^verbatim>\<open>"cost"\<close> of a sell) is \<open>None\<close>. The stock engine writes the key
  \<^verbatim>\<open>"shares"\<close>, the futures engine the key \<^verbatim>\<open>"lots"\<close>.
\<close>

record 'd trade =
  date :: 'd
  action :: action
  price :: real
  cost :: "real option"
  pnl :: "real option"

record 'd stock_trade = "'d trade" +
  shares :: real

record 'd futures_trade = "'d trade" +
  lots :: int

text \<open>
  The local variables of the loop. Both functions have \<^verbatim>\<open>trades\<close>, \<^verbatim>\<open>equity\<close>,
  \<^verbatim>\<open>realized_pnl\<close>, \<^verbatim>\<open>last_buy_price\<close> and \<^verbatim>\<open>in_position\<close>; the stock engine adds
  \<^verbatim>\<open>position_cost\<close> and \<^verbatim>\<open>position_shares\<close>, the futures engine \<^verbatim>\<open>total_cost\<close> and
  \<^verbatim>\<open>lots\<close> (here \<open>lots_held\<close>, the name \<open>lots\<close> being the key of the trade).
\<close>

record 't run_state =
  trades :: "'t list"
  equity :: "real list"
  realized_pnl :: real
  last_buy_price :: "real option"
  in_position :: bool

record 'd stock_state = "'d stock_trade run_state" +
  position_cost :: real
  position_shares :: real

record 'd futures_state = "'d futures_trade run_state" +
  total_cost :: real
  lots_held :: int

section \<open>The stock engine (\<^verbatim>\<open>backtest_stock\<close>, lines 23 to 85)\<close>

text \<open>Lines 24 to 30.\<close>

definition stock_init :: "'d stock_state" where
  "stock_init =
     \<lparr>trades = [], equity = [], realized_pnl = 0, last_buy_price = None,
      in_position = False, position_cost = 0, position_shares = 0\<rparr>"

text \<open>Lines 37 to 48: the branch \<^verbatim>\<open>if not in_position\<close>.\<close>

definition stock_open :: "real \<Rightarrow> 'd \<Rightarrow> real \<Rightarrow> 'd stock_state \<Rightarrow> 'd stock_state" where
  "stock_open initial_inr d p s =
     (let shares = initial_inr / p
      in s\<lparr>position_shares := shares,
            position_cost := initial_inr,
            last_buy_price := Some p,
            in_position := True,
            trades := trades s @
              [\<lparr>date = d, action = BUY_INIT, price = py_round p 2,
                cost = Some initial_inr, pnl = None, shares = py_round shares 4\<rparr>]\<rparr>)"

text \<open>
  Lines 50 to 62: the drawdown from the last buy and the add. The subtraction and the
  division raise when \<^verbatim>\<open>last_buy_price\<close> is \<^verbatim>\<open>None\<close> or zero.
\<close>

definition stock_add :: "real \<Rightarrow> real \<Rightarrow> 'd \<Rightarrow> real \<Rightarrow> 'd stock_state \<Rightarrow> error + 'd stock_state" where
  "stock_add add_inr drop_pct d p s =
     (case last_buy_price s of
        None \<Rightarrow> Inl TypeError
      | Some l \<Rightarrow>
          if l = 0 then Inl ZeroDivisionError
          else
            let drop = ((l - p) / l) * 100
            in if drop \<ge> drop_pct then
                 let add_shares = add_inr / p
                 in Inr (s\<lparr>position_shares := position_shares s + add_shares,
                           position_cost := position_cost s + add_inr,
                           last_buy_price := Some p,
                           trades := trades s @
                             [\<lparr>date = d, action = BUY_ADD, price = py_round p 2,
                               cost = Some add_inr, pnl = None,
                               shares = py_round add_shares 4\<rparr>]\<rparr>)
               else Inr s)"

text \<open>Lines 64 to 80: the profit check on the average price, and the sale.\<close>

definition stock_sell :: "real \<Rightarrow> 'd \<Rightarrow> real \<Rightarrow> 'd stock_state \<Rightarrow> 'd stock_state" where
  "stock_sell profit_pct d p s =
     (if position_shares s > 0 then
        let avg_price = position_cost s / position_shares s
        in if p \<ge> avg_price * (1 + profit_pct / 100) then
             let proceeds = p * position_shares s;
                 pnl = proceeds - position_cost s
             in s\<lparr>realized_pnl := realized_pnl s + pnl,
                   trades := trades s @
                     [\<lparr>date = d, action = SELL_ALL, price = py_round p 2,
                       cost = None, pnl = Some (py_round pnl 2),
                       shares = py_round (position_shares s) 4\<rparr>],
                   in_position := False,
                   position_cost := 0,
                   position_shares := 0,
                   last_buy_price := None\<rparr>
           else s
      else s)"

text \<open>Lines 82 and 83.\<close>

definition stock_mark :: "real \<Rightarrow> 'd stock_state \<Rightarrow> 'd stock_state" where
  "stock_mark p s =
     (let unrealized = (if in_position s then position_shares s * p else 0)
      in s\<lparr>equity := equity s @ [realized_pnl s + unrealized]\<rparr>)"

text \<open>
  Lines 33 to 83, one pass of the loop body. The \<^verbatim>\<open>continue\<close> of line 34 leaves the
  body before line 83, so a skipped bar appends nothing to \<^verbatim>\<open>equity\<close>.
\<close>

definition stock_bar ::
  "real \<Rightarrow> real \<Rightarrow> real \<Rightarrow> real \<Rightarrow> 'd stock_state \<Rightarrow> 'd \<times> real option \<Rightarrow> error + 'd stock_state" where
  "stock_bar initial_inr add_inr drop_pct profit_pct s bar =
     (case bar of
        (d, None) \<Rightarrow> Inr s
      | (d, Some p) \<Rightarrow>
          if p \<le> 0 then Inr s
          else if \<not> in_position s then Inr (stock_mark p (stock_open initial_inr d p s))
          else
            (case stock_add add_inr drop_pct d p s of
               Inl e \<Rightarrow> Inl e
             | Inr s' \<Rightarrow> Inr (stock_mark p (stock_sell profit_pct d p s'))))"

fun stock_loop ::
  "real \<Rightarrow> real \<Rightarrow> real \<Rightarrow> real \<Rightarrow> 'd stock_state \<Rightarrow> ('d \<times> real option) list \<Rightarrow> error + 'd stock_state" where
  "stock_loop initial_inr add_inr drop_pct profit_pct s [] = Inr s"
| "stock_loop initial_inr add_inr drop_pct profit_pct s (bar # bars) =
     (case stock_bar initial_inr add_inr drop_pct profit_pct s bar of
        Inl e \<Rightarrow> Inl e
      | Inr s' \<Rightarrow> stock_loop initial_inr add_inr drop_pct profit_pct s' bars)"

text \<open>
  The whole function. \<open>prices\<close> is \<^verbatim>\<open>prices.items()\<close>, the index its first components;
  \<^verbatim>\<open>pd.DataFrame(trades)\<close> is the list of trades.
\<close>

definition backtest_stock ::
  "('d \<times> real option) list \<Rightarrow> real \<Rightarrow> real \<Rightarrow> real \<Rightarrow> real
     \<Rightarrow> error + ('d stock_trade list \<times> ('d \<times> real) list)" where
  "backtest_stock prices initial_inr add_inr drop_pct profit_pct =
     (case stock_loop initial_inr add_inr drop_pct profit_pct stock_init prices of
        Inl e \<Rightarrow> Inl e
      | Inr s \<Rightarrow>
          (case pd_Series (equity s) (map fst prices) of
             Inl e \<Rightarrow> Inl e
           | Inr curve \<Rightarrow> Inr (trades s, curve)))"

section \<open>The futures engine (\<^verbatim>\<open>backtest_futures\<close>, lines 88 to 149)\<close>

text \<open>Lines 89 to 95.\<close>

definition futures_init :: "'d futures_state" where
  "futures_init =
     \<lparr>trades = [], equity = [], realized_pnl = 0, last_buy_price = None,
      in_position = False, total_cost = 0, lots_held = 0\<rparr>"

text \<open>Lines 102 to 112.\<close>

definition futures_open :: "int \<Rightarrow> real \<Rightarrow> 'd \<Rightarrow> real \<Rightarrow> 'd futures_state \<Rightarrow> 'd futures_state" where
  "futures_open initial_lots lot_value d p s =
     (let lots = initial_lots;
          total_cost = of_int lots * p * lot_value
      in s\<lparr>lots_held := lots,
            total_cost := total_cost,
            last_buy_price := Some p,
            in_position := True,
            trades := trades s @
              [\<lparr>date = d, action = BUY_INIT, price = py_round p 2,
                cost = Some (py_round total_cost 2), pnl = None, lots = lots\<rparr>]\<rparr>)"

text \<open>Lines 114 to 126.\<close>

definition futures_add :: "real \<Rightarrow> real \<Rightarrow> 'd \<Rightarrow> real \<Rightarrow> 'd futures_state \<Rightarrow> error + 'd futures_state" where
  "futures_add add_lot_every_drop lot_value d p s =
     (case last_buy_price s of
        None \<Rightarrow> Inl TypeError
      | Some l \<Rightarrow>
          if l = 0 then Inl ZeroDivisionError
          else
            let drop = ((l - p) / l) * 100
            in if drop \<ge> add_lot_every_drop then
                 let lots = lots_held s + 1;
                     additional_cost = p * lot_value
                 in Inr (s\<lparr>lots_held := lots,
                           total_cost := total_cost s + additional_cost,
                           last_buy_price := Some p,
                           trades := trades s @
                             [\<lparr>date = d, action = BUY_ADD, price = py_round p 2,
                               cost = Some (py_round additional_cost 2), pnl = None,
                               lots = lots\<rparr>]\<rparr>)
               else Inr s)"

text \<open>
  Lines 128 to 144. The division of line 129 raises when \<^verbatim>\<open>lots * lot_value\<close> is zero,
  which \<^verbatim>\<open>lots > 0\<close> does not exclude.
\<close>

definition futures_sell :: "real \<Rightarrow> real \<Rightarrow> 'd \<Rightarrow> real \<Rightarrow> 'd futures_state \<Rightarrow> error + 'd futures_state" where
  "futures_sell profit_pct lot_value d p s =
     (if lots_held s > 0 then
        if of_int (lots_held s) * lot_value = 0 then Inl ZeroDivisionError
        else
          let avg_price = total_cost s / (of_int (lots_held s) * lot_value)
          in if p \<ge> avg_price * (1 + profit_pct / 100) then
               let proceeds = of_int (lots_held s) * p * lot_value;
                   pnl = proceeds - total_cost s
               in Inr (s\<lparr>realized_pnl := realized_pnl s + pnl,
                         trades := trades s @
                           [\<lparr>date = d, action = SELL_ALL, price = py_round p 2,
                             cost = None, pnl = Some (py_round pnl 2),
                             lots = lots_held s\<rparr>],
                         lots_held := 0,
                         total_cost := 0,
                         in_position := False,
                         last_buy_price := None\<rparr>)
             else Inr s
      else Inr s)"

text \<open>Lines 146 and 147.\<close>

definition futures_mark :: "real \<Rightarrow> real \<Rightarrow> 'd futures_state \<Rightarrow> 'd futures_state" where
  "futures_mark lot_value p s =
     (let unrealized = (if in_position s then of_int (lots_held s) * p * lot_value else 0)
      in s\<lparr>equity := equity s @ [realized_pnl s + unrealized]\<rparr>)"

text \<open>Lines 98 to 147, one pass of the loop body; line 99 skips as line 34 does.\<close>

definition futures_bar ::
  "int \<Rightarrow> real \<Rightarrow> real \<Rightarrow> real \<Rightarrow> 'd futures_state \<Rightarrow> 'd \<times> real option \<Rightarrow> error + 'd futures_state" where
  "futures_bar initial_lots add_lot_every_drop profit_pct lot_value s bar =
     (case bar of
        (d, None) \<Rightarrow> Inr s
      | (d, Some p) \<Rightarrow>
          if p \<le> 0 then Inr s
          else if \<not> in_position s
          then Inr (futures_mark lot_value p (futures_open initial_lots lot_value d p s))
          else
            (case futures_add add_lot_every_drop lot_value d p s of
               Inl e \<Rightarrow> Inl e
             | Inr s' \<Rightarrow>
                 (case futures_sell profit_pct lot_value d p s' of
                    Inl e \<Rightarrow> Inl e
                  | Inr s'' \<Rightarrow> Inr (futures_mark lot_value p s''))))"

fun futures_loop ::
  "int \<Rightarrow> real \<Rightarrow> real \<Rightarrow> real \<Rightarrow> 'd futures_state \<Rightarrow> ('d \<times> real option) list \<Rightarrow> error + 'd futures_state" where
  "futures_loop initial_lots add_lot_every_drop profit_pct lot_value s [] = Inr s"
| "futures_loop initial_lots add_lot_every_drop profit_pct lot_value s (bar # bars) =
     (case futures_bar initial_lots add_lot_every_drop profit_pct lot_value s bar of
        Inl e \<Rightarrow> Inl e
      | Inr s' \<Rightarrow> futures_loop initial_lots add_lot_every_drop profit_pct lot_value s' bars)"

definition backtest_futures ::
  "('d \<times> real option) list \<Rightarrow> int \<Rightarrow> real \<Rightarrow> real \<Rightarrow> real
     \<Rightarrow> error + ('d futures_trade list \<times> ('d \<times> real) list)" where
  "backtest_futures prices initial_lots add_lot_every_drop profit_pct lot_value =
     (case futures_loop initial_lots add_lot_every_drop profit_pct lot_value futures_init prices of
        Inl e \<Rightarrow> Inl e
      | Inr s \<Rightarrow>
          (case pd_Series (equity s) (map fst prices) of
             Inl e \<Rightarrow> Inl e
           | Inr curve \<Rightarrow> Inr (trades s, curve)))"

section \<open>The engines over the arithmetic of the floats\<close>

text \<open>
  The definitions above compute with exact reals. Where a property turns on what the
  floats compute (an equality at a threshold, the sign of a small difference, a value as
  it is stored), the engines are read once more with the arithmetic as a parameter: a
  float is the real number it denotes, comparisons are the exact ones, and each
  operation of the source is one application of \<open>fadd\<close>, \<open>fsub\<close>, \<open>fmul\<close>, \<open>fdiv\<close> or
  \<open>fround\<close> (\<^verbatim>\<open>round(x, n)\<close>), in the order in which Python evaluates the
  expression. Nothing is assumed of the operations, so what holds for every \<open>ops\<close>
  holds for IEEE doubles on the finite values; \<open>exact\<close> is the arithmetic of the
  definitions above. An \<^verbatim>\<open>int\<close> lot count enters a product through \<open>of_int\<close>.
\<close>

record arith =
  fadd :: "real \<Rightarrow> real \<Rightarrow> real"
  fsub :: "real \<Rightarrow> real \<Rightarrow> real"
  fmul :: "real \<Rightarrow> real \<Rightarrow> real"
  fdiv :: "real \<Rightarrow> real \<Rightarrow> real"
  fround :: "real \<Rightarrow> nat \<Rightarrow> real"

definition exact :: arith where
  "exact = \<lparr>fadd = (+), fsub = (-), fmul = (*), fdiv = (/), fround = py_round\<rparr>"

text \<open>Lines 37 to 48.\<close>

definition stock_open_fl :: "arith \<Rightarrow> real \<Rightarrow> 'd \<Rightarrow> real \<Rightarrow> 'd stock_state \<Rightarrow> 'd stock_state" where
  "stock_open_fl ops initial_inr d p s =
     (let shares = fdiv ops initial_inr p
      in s\<lparr>position_shares := shares,
            position_cost := initial_inr,
            last_buy_price := Some p,
            in_position := True,
            trades := trades s @
              [\<lparr>date = d, action = BUY_INIT, price = fround ops p 2,
                cost = Some initial_inr, pnl = None, shares = fround ops shares 4\<rparr>]\<rparr>)"

text \<open>Lines 50 to 62.\<close>

definition stock_add_fl ::
  "arith \<Rightarrow> real \<Rightarrow> real \<Rightarrow> 'd \<Rightarrow> real \<Rightarrow> 'd stock_state \<Rightarrow> error + 'd stock_state" where
  "stock_add_fl ops add_inr drop_pct d p s =
     (case last_buy_price s of
        None \<Rightarrow> Inl TypeError
      | Some l \<Rightarrow>
          if l = 0 then Inl ZeroDivisionError
          else
            let drop = fmul ops (fdiv ops (fsub ops l p) l) 100
            in if drop \<ge> drop_pct then
                 let add_shares = fdiv ops add_inr p
                 in Inr (s\<lparr>position_shares := fadd ops (position_shares s) add_shares,
                           position_cost := fadd ops (position_cost s) add_inr,
                           last_buy_price := Some p,
                           trades := trades s @
                             [\<lparr>date = d, action = BUY_ADD, price = fround ops p 2,
                               cost = Some add_inr, pnl = None,
                               shares = fround ops add_shares 4\<rparr>]\<rparr>)
               else Inr s)"

text \<open>Lines 64 to 80.\<close>

definition stock_sell_fl :: "arith \<Rightarrow> real \<Rightarrow> 'd \<Rightarrow> real \<Rightarrow> 'd stock_state \<Rightarrow> 'd stock_state" where
  "stock_sell_fl ops profit_pct d p s =
     (if position_shares s > 0 then
        let avg_price = fdiv ops (position_cost s) (position_shares s)
        in if p \<ge> fmul ops avg_price (fadd ops 1 (fdiv ops profit_pct 100)) then
             let proceeds = fmul ops p (position_shares s);
                 pnl = fsub ops proceeds (position_cost s)
             in s\<lparr>realized_pnl := fadd ops (realized_pnl s) pnl,
                   trades := trades s @
                     [\<lparr>date = d, action = SELL_ALL, price = fround ops p 2,
                       cost = None, pnl = Some (fround ops pnl 2),
                       shares = fround ops (position_shares s) 4\<rparr>],
                   in_position := False,
                   position_cost := 0,
                   position_shares := 0,
                   last_buy_price := None\<rparr>
           else s
      else s)"

text \<open>Lines 82 and 83.\<close>

definition stock_mark_fl :: "arith \<Rightarrow> real \<Rightarrow> 'd stock_state \<Rightarrow> 'd stock_state" where
  "stock_mark_fl ops p s =
     (let unrealized = (if in_position s then fmul ops (position_shares s) p else 0)
      in s\<lparr>equity := equity s @ [fadd ops (realized_pnl s) unrealized]\<rparr>)"

text \<open>Lines 33 to 83.\<close>

definition stock_bar_fl ::
  "arith \<Rightarrow> real \<Rightarrow> real \<Rightarrow> real \<Rightarrow> real \<Rightarrow> 'd stock_state \<Rightarrow> 'd \<times> real option
     \<Rightarrow> error + 'd stock_state" where
  "stock_bar_fl ops initial_inr add_inr drop_pct profit_pct s bar =
     (case bar of
        (d, None) \<Rightarrow> Inr s
      | (d, Some p) \<Rightarrow>
          if p \<le> 0 then Inr s
          else if \<not> in_position s
          then Inr (stock_mark_fl ops p (stock_open_fl ops initial_inr d p s))
          else
            (case stock_add_fl ops add_inr drop_pct d p s of
               Inl e \<Rightarrow> Inl e
             | Inr s' \<Rightarrow> Inr (stock_mark_fl ops p (stock_sell_fl ops profit_pct d p s'))))"

fun stock_loop_fl ::
  "arith \<Rightarrow> real \<Rightarrow> real \<Rightarrow> real \<Rightarrow> real \<Rightarrow> 'd stock_state \<Rightarrow> ('d \<times> real option) list
     \<Rightarrow> error + 'd stock_state" where
  "stock_loop_fl ops initial_inr add_inr drop_pct profit_pct s [] = Inr s"
| "stock_loop_fl ops initial_inr add_inr drop_pct profit_pct s (bar # bars) =
     (case stock_bar_fl ops initial_inr add_inr drop_pct profit_pct s bar of
        Inl e \<Rightarrow> Inl e
      | Inr s' \<Rightarrow> stock_loop_fl ops initial_inr add_inr drop_pct profit_pct s' bars)"

definition backtest_stock_fl ::
  "arith \<Rightarrow> ('d \<times> real option) list \<Rightarrow> real \<Rightarrow> real \<Rightarrow> real \<Rightarrow> real
     \<Rightarrow> error + ('d stock_trade list \<times> ('d \<times> real) list)" where
  "backtest_stock_fl ops prices initial_inr add_inr drop_pct profit_pct =
     (case stock_loop_fl ops initial_inr add_inr drop_pct profit_pct stock_init prices of
        Inl e \<Rightarrow> Inl e
      | Inr s \<Rightarrow>
          (case pd_Series (equity s) (map fst prices) of
             Inl e \<Rightarrow> Inl e
           | Inr curve \<Rightarrow> Inr (trades s, curve)))"

text \<open>Lines 102 to 112.\<close>

definition futures_open_fl ::
  "arith \<Rightarrow> int \<Rightarrow> real \<Rightarrow> 'd \<Rightarrow> real \<Rightarrow> 'd futures_state \<Rightarrow> 'd futures_state" where
  "futures_open_fl ops initial_lots lot_value d p s =
     (let lots = initial_lots;
          total_cost = fmul ops (fmul ops (of_int lots) p) lot_value
      in s\<lparr>lots_held := lots,
            total_cost := total_cost,
            last_buy_price := Some p,
            in_position := True,
            trades := trades s @
              [\<lparr>date = d, action = BUY_INIT, price = fround ops p 2,
                cost = Some (fround ops total_cost 2), pnl = None, lots = lots\<rparr>]\<rparr>)"

text \<open>Lines 114 to 126.\<close>

definition futures_add_fl ::
  "arith \<Rightarrow> real \<Rightarrow> real \<Rightarrow> 'd \<Rightarrow> real \<Rightarrow> 'd futures_state \<Rightarrow> error + 'd futures_state" where
  "futures_add_fl ops add_lot_every_drop lot_value d p s =
     (case last_buy_price s of
        None \<Rightarrow> Inl TypeError
      | Some l \<Rightarrow>
          if l = 0 then Inl ZeroDivisionError
          else
            let drop = fmul ops (fdiv ops (fsub ops l p) l) 100
            in if drop \<ge> add_lot_every_drop then
                 let lots = lots_held s + 1;
                     additional_cost = fmul ops p lot_value
                 in Inr (s\<lparr>lots_held := lots,
                           total_cost := fadd ops (total_cost s) additional_cost,
                           last_buy_price := Some p,
                           trades := trades s @
                             [\<lparr>date = d, action = BUY_ADD, price = fround ops p 2,
                               cost = Some (fround ops additional_cost 2), pnl = None,
                               lots = lots\<rparr>]\<rparr>)
               else Inr s)"

text \<open>Lines 128 to 144; line 129 raises when the product it divides by is zero.\<close>

definition futures_sell_fl ::
  "arith \<Rightarrow> real \<Rightarrow> real \<Rightarrow> 'd \<Rightarrow> real \<Rightarrow> 'd futures_state \<Rightarrow> error + 'd futures_state" where
  "futures_sell_fl ops profit_pct lot_value d p s =
     (if lots_held s > 0 then
        if fmul ops (of_int (lots_held s)) lot_value = 0 then Inl ZeroDivisionError
        else
          let avg_price = fdiv ops (total_cost s) (fmul ops (of_int (lots_held s)) lot_value)
          in if p \<ge> fmul ops avg_price (fadd ops 1 (fdiv ops profit_pct 100)) then
               let proceeds = fmul ops (fmul ops (of_int (lots_held s)) p) lot_value;
                   pnl = fsub ops proceeds (total_cost s)
               in Inr (s\<lparr>realized_pnl := fadd ops (realized_pnl s) pnl,
                         trades := trades s @
                           [\<lparr>date = d, action = SELL_ALL, price = fround ops p 2,
                             cost = None, pnl = Some (fround ops pnl 2),
                             lots = lots_held s\<rparr>],
                         lots_held := 0,
                         total_cost := 0,
                         in_position := False,
                         last_buy_price := None\<rparr>)
             else Inr s
      else Inr s)"

text \<open>Lines 146 and 147.\<close>

definition futures_mark_fl :: "arith \<Rightarrow> real \<Rightarrow> real \<Rightarrow> 'd futures_state \<Rightarrow> 'd futures_state" where
  "futures_mark_fl ops lot_value p s =
     (let unrealized =
        (if in_position s then fmul ops (fmul ops (of_int (lots_held s)) p) lot_value else 0)
      in s\<lparr>equity := equity s @ [fadd ops (realized_pnl s) unrealized]\<rparr>)"

text \<open>Lines 98 to 147.\<close>

definition futures_bar_fl ::
  "arith \<Rightarrow> int \<Rightarrow> real \<Rightarrow> real \<Rightarrow> real \<Rightarrow> 'd futures_state \<Rightarrow> 'd \<times> real option
     \<Rightarrow> error + 'd futures_state" where
  "futures_bar_fl ops initial_lots add_lot_every_drop profit_pct lot_value s bar =
     (case bar of
        (d, None) \<Rightarrow> Inr s
      | (d, Some p) \<Rightarrow>
          if p \<le> 0 then Inr s
          else if \<not> in_position s
          then Inr (futures_mark_fl ops lot_value p (futures_open_fl ops initial_lots lot_value d p s))
          else
            (case futures_add_fl ops add_lot_every_drop lot_value d p s of
               Inl e \<Rightarrow> Inl e
             | Inr s' \<Rightarrow>
                 (case futures_sell_fl ops profit_pct lot_value d p s' of
                    Inl e \<Rightarrow> Inl e
                  | Inr s'' \<Rightarrow> Inr (futures_mark_fl ops lot_value p s''))))"

fun futures_loop_fl ::
  "arith \<Rightarrow> int \<Rightarrow> real \<Rightarrow> real \<Rightarrow> real \<Rightarrow> 'd futures_state \<Rightarrow> ('d \<times> real option) list
     \<Rightarrow> error + 'd futures_state" where
  "futures_loop_fl ops initial_lots add_lot_every_drop profit_pct lot_value s [] = Inr s"
| "futures_loop_fl ops initial_lots add_lot_every_drop profit_pct lot_value s (bar # bars) =
     (case futures_bar_fl ops initial_lots add_lot_every_drop profit_pct lot_value s bar of
        Inl e \<Rightarrow> Inl e
      | Inr s' \<Rightarrow>
          futures_loop_fl ops initial_lots add_lot_every_drop profit_pct lot_value s' bars)"

definition backtest_futures_fl ::
  "arith \<Rightarrow> ('d \<times> real option) list \<Rightarrow> int \<Rightarrow> real \<Rightarrow> real \<Rightarrow> real
     \<Rightarrow> error + ('d futures_trade list \<times> ('d \<times> real) list)" where
  "backtest_futures_fl ops prices initial_lots add_lot_every_drop profit_pct lot_value =
     (case futures_loop_fl ops initial_lots add_lot_every_drop profit_pct lot_value
             futures_init prices of
        Inl e \<Rightarrow> Inl e
      | Inr s \<Rightarrow>
          (case pd_Series (equity s) (map fst prices) of
             Inl e \<Rightarrow> Inl e
           | Inr curve \<Rightarrow> Inr (trades s, curve)))"

section \<open>Predicates used to state the properties\<close>

text \<open>A bar that line 33 (line 98) does not skip: its price is present and positive.\<close>

definition valid_bar :: "'d \<times> real option \<Rightarrow> bool" where
  "valid_bar bar = (case snd bar of None \<Rightarrow> False | Some p \<Rightarrow> 0 < p)"

text \<open>The actions of the trades appended between the state \<open>s\<close> and the later state \<open>s'\<close>.\<close>

definition emitted ::
  "(('d, 'a) trade_scheme, 'b) run_state_scheme \<Rightarrow> (('d, 'a) trade_scheme, 'b) run_state_scheme
     \<Rightarrow> action list" where
  "emitted s s' = map action (drop (length (trades s)) (trades s'))"

text \<open>
  What keeps lines 50 and 114 from raising: while a position is open the last buy price
  is a positive number, and it is \<^verbatim>\<open>None\<close> otherwise.
\<close>

definition entry_ok :: "('t, 'b) run_state_scheme \<Rightarrow> bool" where
  "entry_ok s =
     (if in_position s then (case last_buy_price s of None \<Rightarrow> False | Some l \<Rightarrow> 0 < l)
      else last_buy_price s = None)"

text \<open>
  The invariant of the position state as the specification words it: a position is open
  exactly when a size is held, no size means no cost basis, and the last entry price is
  defined exactly while a position is open.
\<close>

definition stock_inv :: "'d stock_state \<Rightarrow> bool" where
  "stock_inv s \<longleftrightarrow>
     (in_position s \<longleftrightarrow> 0 < position_shares s) \<and>
     (position_shares s = 0 \<longrightarrow> position_cost s = 0) \<and>
     (last_buy_price s \<noteq> None \<longleftrightarrow> in_position s)"

definition futures_inv :: "'d futures_state \<Rightarrow> bool" where
  "futures_inv s \<longleftrightarrow>
     (in_position s \<longleftrightarrow> 0 < lots_held s) \<and>
     (lots_held s = 0 \<longrightarrow> total_cost s = 0) \<and>
     (last_buy_price s \<noteq> None \<longleftrightarrow> in_position s)"

text \<open>
  While a position is open the shares held are positive and were bought, on average, at
  no less than the last buy price.
\<close>

definition stock_avg_ok :: "'d stock_state \<Rightarrow> bool" where
  "stock_avg_ok s =
     (if in_position s
      then (case last_buy_price s of
              None \<Rightarrow> False
            | Some l \<Rightarrow> 0 < l \<and> 0 < position_shares s \<and>
                l * position_shares s \<le> position_cost s)
      else True)"



section \<open>Evaluation on concrete runs\<close>

lemmas stock_defs = backtest_stock_def stock_bar_def stock_init_def stock_open_def
  stock_add_def stock_sell_def stock_mark_def pd_Series_def py_round_def Let_def

lemmas futures_defs = backtest_futures_def futures_bar_def futures_init_def futures_open_def
  futures_add_def futures_sell_def futures_mark_def pd_Series_def py_round_def Let_def

section \<open>Skipped bars and the length of the equity list\<close>

lemma stock_bar_invalid: "\<not> valid_bar bar \<Longrightarrow> stock_bar i a dp pp s bar = Inr s"
  by (cases bar) (auto simp: valid_bar_def stock_bar_def split: option.splits)

lemma stock_mark_simps [simp]:
  "trades (stock_mark p s) = trades s"
  "in_position (stock_mark p s) = in_position s"
  "last_buy_price (stock_mark p s) = last_buy_price s"
  "realized_pnl (stock_mark p s) = realized_pnl s"
  "position_cost (stock_mark p s) = position_cost s"
  "position_shares (stock_mark p s) = position_shares s"
  "length (equity (stock_mark p s)) = Suc (length (equity s))"
  by (simp_all add: stock_mark_def Let_def)

lemma stock_sell_equity [simp]: "equity (stock_sell pp d p s) = equity s"
  by (simp add: stock_sell_def Let_def)

lemma entry_ok_stock_mark [simp]: "entry_ok (stock_mark p s) = entry_ok s"
  by (simp add: entry_ok_def)

lemma entry_ok_stock_init: "entry_ok stock_init"
  by (simp add: entry_ok_def stock_init_def)

lemma stock_add_total:
  assumes "entry_ok s" "in_position s"
  shows "\<exists>s'. stock_add a dp d p s = Inr s' \<and> in_position s' \<and> equity s' = equity s
           \<and> realized_pnl s' = realized_pnl s
           \<and> (last_buy_price s' = last_buy_price s \<or> last_buy_price s' = Some p)"
  using assms by (auto simp: entry_ok_def stock_add_def Let_def split: option.splits)

lemma stock_sell_entry:
  "0 < p \<Longrightarrow> in_position s \<Longrightarrow> last_buy_price s = Some l \<and> 0 < l
     \<Longrightarrow> entry_ok (stock_sell pp d p s)"
  by (auto simp: entry_ok_def stock_sell_def Let_def)

lemma stock_bar_total:
  assumes "entry_ok s"
  shows "\<exists>s'. stock_bar i a dp pp s bar = Inr s' \<and> entry_ok s'
           \<and> length (equity s') = length (equity s) + (if valid_bar bar then 1 else 0)"
proof (cases "valid_bar bar")
  case False
  then show ?thesis using assms by (simp add: stock_bar_invalid)
next
  case True
  then obtain d p where bar: "bar = (d, Some p)" and p: "0 < p"
    by (cases bar) (auto simp: valid_bar_def split: option.splits)
  show ?thesis
  proof (cases "in_position s")
    case False
    then show ?thesis using p bar True
      by (simp add: stock_bar_def entry_ok_def stock_open_def Let_def)
  next
    case pos: True
    from stock_add_total [OF assms pos, of a dp d p] obtain s1 where
      s1: "stock_add a dp d p s = Inr s1" "in_position s1" "equity s1 = equity s"
        "last_buy_price s1 = last_buy_price s \<or> last_buy_price s1 = Some p"
      by blast
    from assms pos obtain l where l: "last_buy_price s = Some l" "0 < l"
      by (auto simp: entry_ok_def split: option.splits)
    from s1(4) l p obtain l' where "last_buy_price s1 = Some l'" "0 < l'" by auto
    then have "entry_ok (stock_sell pp d p s1)"
      using stock_sell_entry [OF p s1(2)] by blast
    then show ?thesis using p bar True pos s1
      by (simp add: stock_bar_def)
  qed
qed

lemma stock_loop_total:
  "entry_ok s \<Longrightarrow> \<exists>s'. stock_loop i a dp pp s bars = Inr s' \<and> entry_ok s'
      \<and> length (equity s') = length (equity s) + length (filter valid_bar bars)"
proof (induction bars arbitrary: s)
  case Nil
  then show ?case by simp
next
  case (Cons bar bars)
  from stock_bar_total [OF Cons.prems, of i a dp pp bar] obtain s1 where
    s1: "stock_bar i a dp pp s bar = Inr s1" "entry_ok s1"
      "length (equity s1) = length (equity s) + (if valid_bar bar then 1 else 0)"
    by blast
  from Cons.IH [OF s1(2)] obtain s2 where
    "stock_loop i a dp pp s1 bars = Inr s2" "entry_ok s2"
    "length (equity s2) = length (equity s1) + length (filter valid_bar bars)"
    by blast
  then show ?case using s1 by simp
qed

lemma length_filter_all: "length (filter P xs) = length xs \<longleftrightarrow> (\<forall>x\<in>set xs. P x)"
  by (induction xs) (auto simp: le_imp_less_Suc [OF length_filter_le] less_imp_neq)

text \<open>
  The stock engine raises exactly when the series holds a bar it skips, and what it
  raises is the \<open>ValueError\<close> of line 85.
\<close>

lemma backtest_stock_error:
  "backtest_stock prices i a dp pp = Inl e \<longleftrightarrow>
     e = ValueError \<and> (\<exists>bar\<in>set prices. \<not> valid_bar bar)"
proof -
  from stock_loop_total [OF entry_ok_stock_init, of i a dp pp prices] obtain s where
    s: "stock_loop i a dp pp stock_init prices = Inr s"
       "length (equity s) = length (filter valid_bar prices)"
    by (auto simp: stock_init_def)
  show ?thesis using s length_filter_all [of valid_bar prices]
    by (auto simp: backtest_stock_def pd_Series_def)
qed

text \<open>
  C1. The claim: for every bar whose price is missing or non-positive the engine changes
  no state but still appends an equity point for that bar. The code does the first and
  not the second: the \<^verbatim>\<open>continue\<close> of lines 34 and 99 leaves the loop body before
  \<^verbatim>\<open>equity.append\<close>, so the state after a skipped bar is the state before it, equity
  list included. The return statement then pairs the shorter list with the whole index
  and raises. The run below has one valid bar and one skipped bar.
\<close>

theorem skipped_bar_gets_no_equity_point:
  "stock_bar i a dp pp s (d, None) = Inr s \<and>
   stock_bar i a dp pp s (d, Some (- \<bar>p\<bar>)) = Inr s \<and>
   futures_bar n dp pp lv t (d, None) = Inr t \<and>
   futures_bar n dp pp lv t (d, Some (- \<bar>p\<bar>)) = Inr t \<and>
   backtest_stock [(0::nat, Some 100), (1, None)] 10000 10000 2 5 = Inl ValueError \<and>
   backtest_futures [(0::nat, Some 100), (1, Some 0)] 1 2 5 1 = Inl ValueError"
proof -
  have "backtest_stock [(0::nat, Some 100), (1, None)] 10000 10000 2 5 = Inl ValueError"
    by (simp add: stock_defs)
  moreover
  have "backtest_futures [(0::nat, Some 100), (1, Some 0)] 1 2 5 1 = Inl ValueError"
    by (simp add: futures_defs)
  ultimately show ?thesis
    by (simp add: stock_bar_def futures_bar_def)
qed

text \<open>
  C2. The claim: a series that never reaches the initial entry, an empty one or one of
  invalid prices only, returns an empty ledger and an empty equity sequence and raises
  nothing. The empty series does; a non-empty series of invalid prices only leaves
  \<^verbatim>\<open>equity\<close> empty against an index that is not, and line 85 (line 149) raises.
\<close>

theorem all_invalid_series_raises:
  "backtest_stock [(0::nat, None), (1, Some 0), (2, Some (- 5))] 10000 10000 2 5 = Inl ValueError \<and>
   backtest_futures [(0::nat, None), (1, Some 0), (2, Some (- 5))] 1 2 5 1 = Inl ValueError \<and>
   backtest_stock ([] :: (nat \<times> real option) list) 10000 10000 2 5 = Inr ([], []) \<and>
   backtest_futures ([] :: (nat \<times> real option) list) 1 2 5 1 = Inr ([], [])"
  by (simp add: stock_defs futures_defs)

lemma futures_bar_invalid: "\<not> valid_bar bar \<Longrightarrow> futures_bar n dp pp lv s bar = Inr s"
  by (cases bar) (auto simp: valid_bar_def futures_bar_def split: option.splits)

lemma futures_mark_simps [simp]:
  "trades (futures_mark lv p s) = trades s"
  "in_position (futures_mark lv p s) = in_position s"
  "last_buy_price (futures_mark lv p s) = last_buy_price s"
  "realized_pnl (futures_mark lv p s) = realized_pnl s"
  "total_cost (futures_mark lv p s) = total_cost s"
  "lots_held (futures_mark lv p s) = lots_held s"
  "length (equity (futures_mark lv p s)) = Suc (length (equity s))"
  by (simp_all add: futures_mark_def Let_def)

lemma entry_ok_futures_mark [simp]: "entry_ok (futures_mark lv p s) = entry_ok s"
  by (simp add: entry_ok_def)

lemma entry_ok_futures_init: "entry_ok futures_init"
  by (simp add: entry_ok_def futures_init_def)

lemma futures_add_total:
  assumes "entry_ok s" "in_position s"
  shows "\<exists>s'. futures_add dp lv d p s = Inr s' \<and> in_position s' \<and> equity s' = equity s
           \<and> realized_pnl s' = realized_pnl s
           \<and> (last_buy_price s' = last_buy_price s \<or> last_buy_price s' = Some p)"
  using assms by (auto simp: entry_ok_def futures_add_def Let_def split: option.splits)

lemma futures_sell_total:
  assumes "lv \<noteq> 0" "0 < p" "in_position s" "last_buy_price s = Some l \<and> 0 < l"
  shows "\<exists>s'. futures_sell pp lv d p s = Inr s' \<and> entry_ok s' \<and> equity s' = equity s"
  using assms by (auto simp: entry_ok_def futures_sell_def Let_def)

lemma futures_bar_total:
  assumes "entry_ok s" "lv \<noteq> 0"
  shows "\<exists>s'. futures_bar n dp pp lv s bar = Inr s' \<and> entry_ok s'
           \<and> length (equity s') = length (equity s) + (if valid_bar bar then 1 else 0)"
proof (cases "valid_bar bar")
  case False
  then show ?thesis using assms by (simp add: futures_bar_invalid)
next
  case True
  then obtain d p where bar: "bar = (d, Some p)" and p: "0 < p"
    by (cases bar) (auto simp: valid_bar_def split: option.splits)
  show ?thesis
  proof (cases "in_position s")
    case False
    then show ?thesis using p bar True
      by (simp add: futures_bar_def entry_ok_def futures_open_def Let_def)
  next
    case pos: True
    from futures_add_total [OF assms(1) pos, of dp lv d p] obtain s1 where
      s1: "futures_add dp lv d p s = Inr s1" "in_position s1" "equity s1 = equity s"
        "last_buy_price s1 = last_buy_price s \<or> last_buy_price s1 = Some p"
      by blast
    from assms pos obtain l where l: "last_buy_price s = Some l" "0 < l"
      by (auto simp: entry_ok_def split: option.splits)
    from s1(4) l p obtain l' where "last_buy_price s1 = Some l' \<and> 0 < l'" by auto
    from futures_sell_total [OF assms(2) p s1(2) this, of pp d] obtain s2 where
      "futures_sell pp lv d p s1 = Inr s2" "entry_ok s2" "equity s2 = equity s1"
      by blast
    then show ?thesis using p bar True pos s1
      by (simp add: futures_bar_def)
  qed
qed

lemma futures_loop_total:
  "entry_ok s \<Longrightarrow> lv \<noteq> 0 \<Longrightarrow> \<exists>s'. futures_loop n dp pp lv s bars = Inr s' \<and> entry_ok s'
      \<and> length (equity s') = length (equity s) + length (filter valid_bar bars)"
proof (induction bars arbitrary: s)
  case Nil
  then show ?case by simp
next
  case (Cons bar bars)
  from futures_bar_total [OF Cons.prems, of n dp pp bar] obtain s1 where
    s1: "futures_bar n dp pp lv s bar = Inr s1" "entry_ok s1"
      "length (equity s1) = length (equity s) + (if valid_bar bar then 1 else 0)"
    by blast
  from Cons.IH [OF s1(2) Cons.prems(2)] obtain s2 where
    "futures_loop n dp pp lv s1 bars = Inr s2" "entry_ok s2"
    "length (equity s2) = length (equity s1) + length (filter valid_bar bars)"
    by blast
  then show ?case using s1 by simp
qed

text \<open>The ledger and the equity list are only ever appended to.\<close>

lemma stock_bar_grows:
  "stock_bar i a dp pp s bar = Inr s' \<Longrightarrow>
     (\<exists>ts. trades s' = trades s @ ts) \<and> (\<exists>es. equity s' = equity s @ es)"
  by (cases bar)
     (auto simp: stock_bar_def stock_open_def stock_add_def stock_sell_def stock_mark_def Let_def
           split: option.splits if_splits sum.splits)

lemma stock_loop_grows:
  "stock_loop i a dp pp s bars = Inr s' \<Longrightarrow>
     (\<exists>ts. trades s' = trades s @ ts) \<and> (\<exists>es. equity s' = equity s @ es)"
proof (induction bars arbitrary: s)
  case Nil
  then show ?case by simp
next
  case (Cons bar bars)
  then obtain s1 where s1: "stock_bar i a dp pp s bar = Inr s1"
    "stock_loop i a dp pp s1 bars = Inr s'"
    by (auto split: sum.splits)
  from stock_bar_grows [OF s1(1)] Cons.IH [OF s1(2)] show ?case
    by (metis append.assoc)
qed

lemma futures_bar_grows:
  "futures_bar n dp pp lv s bar = Inr s' \<Longrightarrow>
     (\<exists>ts. trades s' = trades s @ ts) \<and> (\<exists>es. equity s' = equity s @ es)"
  by (cases bar)
     (auto simp: futures_bar_def futures_open_def futures_add_def futures_sell_def futures_mark_def Let_def
           split: option.splits if_splits sum.splits)

lemma futures_loop_grows:
  "futures_loop n dp pp lv s bars = Inr s' \<Longrightarrow>
     (\<exists>ts. trades s' = trades s @ ts) \<and> (\<exists>es. equity s' = equity s @ es)"
proof (induction bars arbitrary: s)
  case Nil
  then show ?case by simp
next
  case (Cons bar bars)
  then obtain s1 where s1: "futures_bar n dp pp lv s bar = Inr s1"
    "futures_loop n dp pp lv s1 bars = Inr s'"
    by (auto split: sum.splits)
  from futures_bar_grows [OF s1(1)] Cons.IH [OF s1(2)] show ?case
    by (metis append.assoc)
qed

section \<open>The scenario of the specification\<close>

lemma scenario_state:
  "stock_loop 10000 10000 2 5 stock_init
     [(0::nat, Some 100), (1, Some 100), (2, Some 97), (3, Some 97), (4, Some 102)] =
   Inr \<lparr>trades =
          [\<lparr>date = 0, action = BUY_INIT, price = 100, cost = Some 10000, pnl = None,
             shares = 100\<rparr>,
           \<lparr>date = 2, action = BUY_ADD, price = 97, cost = Some 10000, pnl = None,
             shares = 103.0928\<rparr>],
        equity = [10000, 10000, 19700, 19700, 2009400 / 97],
        realized_pnl = 0, last_buy_price = Some 97, in_position = True,
        position_cost = 20000, position_shares = 19700 / 97\<rparr>"
  by (simp add: stock_defs)

text \<open>
  C5. The claim: on the prices 100, 100, 97, 97, 102 with amounts of 10000, a drop of 2
  per cent and a profit target of 5 per cent the stock engine buys 100 shares at 100,
  adds about 103.09 shares at 97, holds an average price of about 98.56, does not sell
  at 102 (the threshold being about 103.49) and ends with an equity of about 20722.68,
  all of it unrealized. The trades are as claimed; the three figures are not. As
  amended: the average price is 20000 / (19700 / 97), about 98.48, the threshold about
  103.40, and the last equity 2009400 / 97, about 20715.46.
\<close>

theorem scenario_run:
  "backtest_stock
     [(0::nat, Some 100), (1, Some 100), (2, Some 97), (3, Some 97), (4, Some 102)]
     10000 10000 2 5 =
   Inr ([\<lparr>date = 0, action = BUY_INIT, price = 100, cost = Some 10000, pnl = None,
           shares = 100\<rparr>,
         \<lparr>date = 2, action = BUY_ADD, price = 97, cost = Some 10000, pnl = None,
           shares = 103.0928\<rparr>],
        [(0, 10000), (1, 10000), (2, 19700), (3, 19700), (4, 2009400 / 97)]) \<and>
   \<bar>position_cost (projr (stock_loop 10000 10000 2 5 stock_init
        [(0::nat, Some 100), (1, Some 100), (2, Some 97), (3, Some 97), (4, Some 102)])) /
     position_shares (projr (stock_loop 10000 10000 2 5 stock_init
        [(0::nat, Some 100), (1, Some 100), (2, Some 97), (3, Some 97), (4, Some 102)]))
     - 98.48\<bar> < 0.005 \<and>
   \<bar>position_cost (projr (stock_loop 10000 10000 2 5 stock_init
        [(0::nat, Some 100), (1, Some 100), (2, Some 97), (3, Some 97), (4, Some 102)])) /
     position_shares (projr (stock_loop 10000 10000 2 5 stock_init
        [(0::nat, Some 100), (1, Some 100), (2, Some 97), (3, Some 97), (4, Some 102)]))
     * (1 + 5 / 100) - 103.40\<bar> < 0.005 \<and>
   \<bar>snd (last (snd (projr (backtest_stock
        [(0::nat, Some 100), (1, Some 100), (2, Some 97), (3, Some 97), (4, Some 102)]
        10000 10000 2 5)))) - 20715.46\<bar> < 0.005 \<and>
   realized_pnl (projr (stock_loop 10000 10000 2 5 stock_init
        [(0::nat, Some 100), (1, Some 100), (2, Some 97), (3, Some 97), (4, Some 102)])) = 0"
proof -
  have "backtest_stock
     [(0::nat, Some 100), (1, Some 100), (2, Some 97), (3, Some 97), (4, Some 102)]
     10000 10000 2 5 =
   Inr ([\<lparr>date = 0, action = BUY_INIT, price = 100, cost = Some 10000, pnl = None,
           shares = 100\<rparr>,
         \<lparr>date = 2, action = BUY_ADD, price = 97, cost = Some 10000, pnl = None,
           shares = 103.0928\<rparr>],
        [(0, 10000), (1, 10000), (2, 19700), (3, 19700), (4, 2009400 / 97)])"
    unfolding backtest_stock_def scenario_state by (simp add: pd_Series_def)
  then show ?thesis
    unfolding scenario_state by simp
qed

text \<open>
  C5 as stated fails: the average price after the add is further than 0.08 from 98.56,
  and the equity at the last bar further than 7 from 20722.68.
\<close>

theorem scenario_figures_off:
  "\<not> \<bar>position_cost (projr (stock_loop 10000 10000 2 5 stock_init
        [(0::nat, Some 100), (1, Some 100), (2, Some 97), (3, Some 97), (4, Some 102)])) /
      position_shares (projr (stock_loop 10000 10000 2 5 stock_init
        [(0::nat, Some 100), (1, Some 100), (2, Some 97), (3, Some 97), (4, Some 102)]))
      - 98.56\<bar> < 0.08 \<and>
   \<not> \<bar>snd (last (snd (projr (backtest_stock
        [(0::nat, Some 100), (1, Some 100), (2, Some 97), (3, Some 97), (4, Some 102)]
        10000 10000 2 5)))) - 20722.68\<bar> < 7"
  unfolding backtest_stock_def scenario_state by (simp add: pd_Series_def)

section \<open>The invariant of the position state\<close>

lemma stock_inv_init: "stock_inv stock_init"
  by (simp add: stock_inv_def stock_init_def)

lemma stock_inv_mark [simp]: "stock_inv (stock_mark p s) = stock_inv s"
  by (simp add: stock_inv_def)

lemma stock_open_inv: "0 < i \<Longrightarrow> 0 < p \<Longrightarrow> stock_inv (stock_open i d p s)"
  by (simp add: stock_inv_def stock_open_def Let_def)

lemma stock_add_inv:
  assumes "0 < a" "0 < p" "stock_inv s" "in_position s" "stock_add a dp d p s = Inr s'"
  shows "stock_inv s' \<and> in_position s'"
proof -
  have "0 < a / p" using assms(1,2) by simp
  then show ?thesis using assms(3,4,5)
    by (auto simp: stock_inv_def stock_add_def Let_def add_pos_pos
             split: option.splits if_splits)
qed

lemma stock_sell_inv: "stock_inv s \<Longrightarrow> stock_inv (stock_sell pp d p s)"
  by (simp add: stock_inv_def stock_sell_def Let_def)

lemma stock_bar_inv:
  assumes "0 < i" "0 < a" "stock_inv s" "stock_bar i a dp pp s bar = Inr s'"
  shows "stock_inv s'"
proof (cases "valid_bar bar")
  case False
  then show ?thesis using assms by (simp add: stock_bar_invalid)
next
  case True
  then obtain d p where bar: "bar = (d, Some p)" and p: "0 < p"
    by (cases bar) (auto simp: valid_bar_def split: option.splits)
  show ?thesis
  proof (cases "in_position s")
    case False
    then show ?thesis using assms bar p
      by (auto simp: stock_bar_def stock_open_inv)
  next
    case True
    with assms(4) bar p obtain s1 where s1: "stock_add a dp d p s = Inr s1"
      and s': "s' = stock_mark p (stock_sell pp d p s1)"
      by (auto simp: stock_bar_def split: sum.splits)
    from stock_add_inv [OF assms(2) p assms(3) True s1] have "stock_inv s1" by simp
    then show ?thesis by (simp add: s' stock_sell_inv)
  qed
qed

lemma stock_loop_inv:
  "0 < i \<Longrightarrow> 0 < a \<Longrightarrow> stock_inv s \<Longrightarrow> stock_loop i a dp pp s bars = Inr s' \<Longrightarrow> stock_inv s'"
proof (induction bars arbitrary: s)
  case Nil
  then show ?case by simp
next
  case (Cons bar bars)
  from Cons.prems(4) obtain s1 where s1: "stock_bar i a dp pp s bar = Inr s1"
    "stock_loop i a dp pp s1 bars = Inr s'"
    by (auto split: sum.splits)
  from stock_bar_inv [OF Cons.prems(1,2,3) s1(1)] have "stock_inv s1" .
  from Cons.IH [OF Cons.prems(1,2) this s1(2)] show ?case .
qed

lemma stock_sell_resets:
  "trades (stock_sell pp d p s) \<noteq> trades s \<Longrightarrow>
     position_shares (stock_sell pp d p s) = 0 \<and> position_cost (stock_sell pp d p s) = 0 \<and>
     last_buy_price (stock_sell pp d p s) = None \<and> \<not> in_position (stock_sell pp d p s) \<and>
     map action (drop (length (trades s)) (trades (stock_sell pp d p s))) = [SELL_ALL]"
  by (auto simp: stock_sell_def Let_def split: if_splits)

lemma futures_inv_init: "futures_inv futures_init"
  by (simp add: futures_inv_def futures_init_def)

lemma futures_inv_mark [simp]: "futures_inv (futures_mark lv p s) = futures_inv s"
  by (simp add: futures_inv_def)

lemma futures_open_inv: "0 < n \<Longrightarrow> futures_inv (futures_open n lv d p s)"
  by (simp add: futures_inv_def futures_open_def Let_def)

lemma futures_add_inv:
  assumes "futures_inv s" "in_position s" "futures_add dp lv d p s = Inr s'"
  shows "futures_inv s' \<and> in_position s'"
  using assms
  by (auto simp: futures_inv_def futures_add_def Let_def split: option.splits if_splits)

lemma futures_sell_inv: "futures_inv s \<Longrightarrow> futures_sell pp lv d p s = Inr s' \<Longrightarrow> futures_inv s'"
  by (auto simp: futures_inv_def futures_sell_def Let_def split: if_splits)

lemma futures_bar_inv:
  assumes "0 < n" "futures_inv s" "futures_bar n dp pp lv s bar = Inr s'"
  shows "futures_inv s'"
proof (cases "valid_bar bar")
  case False
  then show ?thesis using assms by (simp add: futures_bar_invalid)
next
  case True
  then obtain d p where bar: "bar = (d, Some p)" and p: "0 < p"
    by (cases bar) (auto simp: valid_bar_def split: option.splits)
  show ?thesis
  proof (cases "in_position s")
    case False
    then show ?thesis using assms bar p
      by (auto simp: futures_bar_def futures_open_inv)
  next
    case True
    with assms(3) bar p obtain s1 s2 where s1: "futures_add dp lv d p s = Inr s1"
      and s2: "futures_sell pp lv d p s1 = Inr s2"
      and s': "s' = futures_mark lv p s2"
      by (auto simp: futures_bar_def split: sum.splits)
    from futures_add_inv [OF assms(2) True s1] have "futures_inv s1" by simp
    from futures_sell_inv [OF this s2] show ?thesis by (simp add: s')
  qed
qed

lemma futures_loop_inv:
  "0 < n \<Longrightarrow> futures_inv s \<Longrightarrow> futures_loop n dp pp lv s bars = Inr s' \<Longrightarrow> futures_inv s'"
proof (induction bars arbitrary: s)
  case Nil
  then show ?case by simp
next
  case (Cons bar bars)
  from Cons.prems(3) obtain s1 where s1: "futures_bar n dp pp lv s bar = Inr s1"
    "futures_loop n dp pp lv s1 bars = Inr s'"
    by (auto split: sum.splits)
  from futures_bar_inv [OF Cons.prems(1,2) s1(1)] have "futures_inv s1" .
  from Cons.IH [OF Cons.prems(1) this s1(2)] show ?case .
qed

lemma futures_sell_resets:
  "futures_sell pp lv d p s = Inr s' \<Longrightarrow> trades s' \<noteq> trades s \<Longrightarrow>
     lots_held s' = 0 \<and> total_cost s' = 0 \<and> last_buy_price s' = None \<and> \<not> in_position s' \<and>
     map action (drop (length (trades s)) (trades s')) = [SELL_ALL]"
  by (auto simp: futures_sell_def Let_def split: if_splits)

text \<open>
  C6. The claim: after each bar a position is open exactly when a size is held, the cost
  basis is 0 whenever the size is 0, and the last entry price is defined exactly while
  a position is open; every \<open>SELL_ALL\<close> resets size, cost basis and last entry price.
  The code takes any amounts, and an initial amount (or lot count) of 0 or less opens a
  position that holds no size. As amended: the invariant holds after every bar of every
  run whose initial and add amounts are positive (stock engine) or whose initial lot
  count is positive (futures engine); the reset at a \<open>SELL_ALL\<close> holds as claimed.
  \<open>take k bars\<close> are the first \<open>k\<close> bars, so the state below is the state after bar
  \<open>k\<close>. The futures run exists when the lot value is not 0, and line 129 raises
  otherwise.
\<close>

theorem position_invariant:
  "(0 < initial_inr \<and> 0 < add_inr \<longrightarrow>
      (\<exists>s. stock_loop initial_inr add_inr drop_pct profit_pct stock_init (take k bars) = Inr s \<and>
           stock_inv s)) \<and>
   (0 < initial_lots \<and> lot_value \<noteq> 0 \<longrightarrow>
      (\<exists>t. futures_loop initial_lots add_lot_every_drop profit_pct lot_value futures_init
             (take k bars) = Inr t \<and>
           futures_inv t)) \<and>
   (0 < initial_lots \<and>
    futures_loop initial_lots add_lot_every_drop profit_pct lot_value futures_init (take k bars) =
      Inr t \<longrightarrow> futures_inv t) \<and>
   (trades (stock_sell profit_pct d p s0) \<noteq> trades s0 \<longrightarrow>
      position_shares (stock_sell profit_pct d p s0) = 0 \<and>
      position_cost (stock_sell profit_pct d p s0) = 0 \<and>
      last_buy_price (stock_sell profit_pct d p s0) = None \<and>
      \<not> in_position (stock_sell profit_pct d p s0) \<and>
      emitted s0 (stock_sell profit_pct d p s0) = [SELL_ALL]) \<and>
   (futures_sell profit_pct lot_value d p t0 = Inr t1 \<and> trades t1 \<noteq> trades t0 \<longrightarrow>
      lots_held t1 = 0 \<and> total_cost t1 = 0 \<and> last_buy_price t1 = None \<and>
      \<not> in_position t1 \<and> emitted t0 t1 = [SELL_ALL])"
proof -
  have A: "\<exists>s. stock_loop initial_inr add_inr drop_pct profit_pct stock_init (take k bars) =
      Inr s \<and> stock_inv s" if a: "0 < initial_inr \<and> 0 < add_inr"
  proof -
    from stock_loop_total [OF entry_ok_stock_init] obtain s where
      s: "stock_loop initial_inr add_inr drop_pct profit_pct stock_init (take k bars) = Inr s"
      by blast
    from a stock_loop_inv [OF _ _ stock_inv_init s] have "stock_inv s" by simp
    with s show ?thesis by blast
  qed
  have B: "\<exists>t. futures_loop initial_lots add_lot_every_drop profit_pct lot_value futures_init
      (take k bars) = Inr t \<and> futures_inv t" if a: "0 < initial_lots \<and> lot_value \<noteq> 0"
  proof -
    from a have lv: "lot_value \<noteq> 0" by simp
    from futures_loop_total [OF entry_ok_futures_init lv] obtain t where
      t: "futures_loop initial_lots add_lot_every_drop profit_pct lot_value futures_init
            (take k bars) = Inr t"
      by blast
    from a futures_loop_inv [OF _ futures_inv_init t] have "futures_inv t" by simp
    with t show ?thesis by blast
  qed
  have C: "futures_inv t" if "0 < initial_lots \<and>
    futures_loop initial_lots add_lot_every_drop profit_pct lot_value futures_init (take k bars) =
      Inr t"
    using that futures_loop_inv [OF _ futures_inv_init] by blast
  have D: "position_shares (stock_sell profit_pct d p s0) = 0 \<and>
      position_cost (stock_sell profit_pct d p s0) = 0 \<and>
      last_buy_price (stock_sell profit_pct d p s0) = None \<and>
      \<not> in_position (stock_sell profit_pct d p s0) \<and>
      emitted s0 (stock_sell profit_pct d p s0) = [SELL_ALL]"
    if "trades (stock_sell profit_pct d p s0) \<noteq> trades s0"
    using stock_sell_resets [OF that] by (simp add: emitted_def)
  have E: "lots_held t1 = 0 \<and> total_cost t1 = 0 \<and> last_buy_price t1 = None \<and>
      \<not> in_position t1 \<and> emitted t0 t1 = [SELL_ALL]"
    if "futures_sell profit_pct lot_value d p t0 = Inr t1 \<and> trades t1 \<noteq> trades t0"
  proof -
    from that have "futures_sell profit_pct lot_value d p t0 = Inr t1" "trades t1 \<noteq> trades t0"
      by simp_all
    from futures_sell_resets [OF this] show ?thesis by (simp add: emitted_def)
  qed
  from A B C D E show ?thesis by blast
qed

text \<open>
  The theorem on the prices 100, 95, 110 after two bars, amounts of 10000, one initial
  lot at a lot value of 1; the sales are those of the third bar.
\<close>

lemma stock_after_two:
  "stock_loop 10000 10000 2 5 stock_init (take 2 [(0::nat, Some 100), (1, Some 95), (2, Some 110)]) =
   Inr \<lparr>trades =
          [\<lparr>date = 0, action = BUY_INIT, price = 100, cost = Some 10000, pnl = None,
             shares = 100\<rparr>,
           \<lparr>date = 1, action = BUY_ADD, price = 95, cost = Some 10000, pnl = None,
             shares = 105.2632\<rparr>],
        equity = [10000, 19500], realized_pnl = 0, last_buy_price = Some 95,
        in_position = True, position_cost = 20000, position_shares = 3900 / 19\<rparr>"
  by (simp add: stock_defs)

lemma futures_after_two:
  "futures_loop 1 2 5 1 futures_init (take 2 [(0::nat, Some 100), (1, Some 95), (2, Some 110)]) =
   Inr \<lparr>trades =
          [\<lparr>date = 0, action = BUY_INIT, price = 100, cost = Some 100, pnl = None, lots = 1\<rparr>,
           \<lparr>date = 1, action = BUY_ADD, price = 95, cost = Some 95, pnl = None, lots = 2\<rparr>],
        equity = [100, 190], realized_pnl = 0, last_buy_price = Some 95, in_position = True,
        total_cost = 195, lots_held = 2\<rparr>"
  by (simp add: futures_defs)

theorem position_invariant_witness:
  "(0::real) < 10000 \<and> (0::int) < 1 \<and> (1::real) \<noteq> 0 \<and>
   (\<exists>s. stock_loop 10000 10000 2 5 stock_init
          (take 2 [(0::nat, Some 100), (1, Some 95), (2, Some 110)]) = Inr s \<and> stock_inv s) \<and>
   (\<exists>t. futures_loop 1 2 5 1 futures_init
          (take 2 [(0::nat, Some 100), (1, Some 95), (2, Some 110)]) = Inr t \<and> futures_inv t) \<and>
   futures_inv (projr (futures_loop 1 2 5 1 futures_init
          (take 2 [(0::nat, Some 100), (1, Some 95), (2, Some 110)]))) \<and>
   trades (stock_sell 5 2 110 (projr (stock_loop 10000 10000 2 5 stock_init
          (take 2 [(0::nat, Some 100), (1, Some 95), (2, Some 110)])))) \<noteq>
     trades (projr (stock_loop 10000 10000 2 5 stock_init
          (take 2 [(0::nat, Some 100), (1, Some 95), (2, Some 110)]))) \<and>
   position_shares (stock_sell 5 2 110 (projr (stock_loop 10000 10000 2 5 stock_init
          (take 2 [(0::nat, Some 100), (1, Some 95), (2, Some 110)])))) = 0 \<and>
   \<not> in_position (stock_sell 5 2 110 (projr (stock_loop 10000 10000 2 5 stock_init
          (take 2 [(0::nat, Some 100), (1, Some 95), (2, Some 110)])))) \<and>
   trades (projr (futures_sell 5 1 2 110 (projr (futures_loop 1 2 5 1 futures_init
          (take 2 [(0::nat, Some 100), (1, Some 95), (2, Some 110)]))))) \<noteq>
     trades (projr (futures_loop 1 2 5 1 futures_init
          (take 2 [(0::nat, Some 100), (1, Some 95), (2, Some 110)]))) \<and>
   lots_held (projr (futures_sell 5 1 2 110 (projr (futures_loop 1 2 5 1 futures_init
          (take 2 [(0::nat, Some 100), (1, Some 95), (2, Some 110)]))))) = 0 \<and>
   \<not> in_position (projr (futures_sell 5 1 2 110 (projr (futures_loop 1 2 5 1 futures_init
          (take 2 [(0::nat, Some 100), (1, Some 95), (2, Some 110)])))))"
  using position_invariant
    [where initial_inr = 10000 and add_inr = 10000 and drop_pct = 2 and profit_pct = 5
       and k = 2 and bars = "[(0::nat, Some 100), (1, Some 95), (2, Some 110)]"
       and initial_lots = 1 and lot_value = 1 and add_lot_every_drop = 2
       and t = "projr (futures_loop 1 2 5 1 futures_init
          (take 2 [(0::nat, Some 100), (1, Some 95), (2, Some 110)]))"
       and d = 2 and p = 110
       and ?s0.0 = "projr (stock_loop 10000 10000 2 5 stock_init
          (take 2 [(0::nat, Some 100), (1, Some 95), (2, Some 110)]))"
       and ?t0.0 = "projr (futures_loop 1 2 5 1 futures_init
          (take 2 [(0::nat, Some 100), (1, Some 95), (2, Some 110)]))"
       and ?t1.0 = "projr (futures_sell 5 1 2 110 (projr (futures_loop 1 2 5 1 futures_init
          (take 2 [(0::nat, Some 100), (1, Some 95), (2, Some 110)]))))"]
  unfolding stock_after_two futures_after_two
  by (simp add: stock_sell_def futures_sell_def Let_def py_round_def)

text \<open>
  C6 as stated fails: with an initial amount of 0 the first valid bar opens a position
  (\<open>in_position\<close> is true, the last buy price is 100) that holds no shares.
\<close>

theorem open_position_without_size:
  "stock_loop 0 10000 2 5 stock_init [(0::nat, Some 100)] =
   Inr \<lparr>trades =
          [\<lparr>date = 0, action = BUY_INIT, price = 100, cost = Some 0, pnl = None,
             shares = 0\<rparr>],
        equity = [0], realized_pnl = 0, last_buy_price = Some 100, in_position = True,
        position_cost = 0, position_shares = 0\<rparr> \<and>
   \<not> stock_inv (projr (stock_loop 0 10000 2 5 stock_init [(0::nat, Some 100)]))"
  by (simp add: stock_defs stock_inv_def)

section \<open>What one bar emits while a position is open\<close>

text \<open>
  The trades of one bar, from the state before it: the add is decided on the drawdown
  from the last buy, the sale on the cost and the size as they are after the add.
\<close>

lemma stock_bar_emits:
  assumes "0 < p" "in_position s" "last_buy_price s = Some l" "l \<noteq> 0"
  shows "\<exists>s'. stock_bar i a dp pp s (d, Some p) = Inr s' \<and>
     emitted s s' =
       (if dp \<le> (l - p) / l * 100 then [BUY_ADD] else []) @
       (if 0 < position_shares s + (if dp \<le> (l - p) / l * 100 then a / p else 0) \<and>
           (position_cost s + (if dp \<le> (l - p) / l * 100 then a else 0)) /
           (position_shares s + (if dp \<le> (l - p) / l * 100 then a / p else 0)) *
           (1 + pp / 100) \<le> p
        then [SELL_ALL] else [])"
proof (cases "dp \<le> (l - p) / l * 100")
  case True
  then show ?thesis using assms
    by (simp add: stock_bar_def stock_add_def stock_sell_def emitted_def Let_def)
next
  case False
  then show ?thesis using assms
    by (simp add: stock_bar_def stock_add_def stock_sell_def emitted_def Let_def)
qed

lemma futures_bar_emits:
  assumes "0 < p" "in_position s" "last_buy_price s = Some l" "l \<noteq> 0" "lv \<noteq> 0"
  shows "\<exists>s'. futures_bar n dp pp lv s (d, Some p) = Inr s' \<and>
     emitted s s' =
       (if dp \<le> (l - p) / l * 100 then [BUY_ADD] else []) @
       (if 0 < lots_held s + (if dp \<le> (l - p) / l * 100 then 1 else 0) \<and>
           (total_cost s + (if dp \<le> (l - p) / l * 100 then p * lv else 0)) /
           (of_int (lots_held s + (if dp \<le> (l - p) / l * 100 then 1 else 0)) * lv) *
           (1 + pp / 100) \<le> p
        then [SELL_ALL] else [])"
proof (cases "dp \<le> (l - p) / l * 100")
  case True
  then show ?thesis using assms
    by (simp add: futures_bar_def futures_add_def futures_sell_def emitted_def Let_def)
next
  case False
  then show ?thesis using assms
    by (simp add: futures_bar_def futures_add_def futures_sell_def emitted_def Let_def)
qed

lemma add_then_sell_cases:
  "(if A then [BUY_ADD] else []) @ (if B then [SELL_ALL] else []) \<in>
     {[], [BUY_ADD], [SELL_ALL], [BUY_ADD, SELL_ALL]}"
  by simp

lemma stock_flat_price_run:
  "backtest_stock [(0::nat, Some 100), (1, Some 100)] 10000 10000 0 0 =
     Inr ([\<lparr>date = 0, action = BUY_INIT, price = 100, cost = Some 10000, pnl = None,
             shares = 100\<rparr>,
           \<lparr>date = 1, action = BUY_ADD, price = 100, cost = Some 10000, pnl = None,
             shares = 100\<rparr>,
           \<lparr>date = 1, action = SELL_ALL, price = 100, cost = None, pnl = Some 0,
             shares = 200\<rparr>],
          [(0, 10000), (1, 0)])"
  by (simp add: stock_defs)

lemma futures_flat_price_run:
  "backtest_futures [(0::nat, Some 100), (1, Some 100)] 1 0 0 1 =
     Inr ([\<lparr>date = 0, action = BUY_INIT, price = 100, cost = Some 100, pnl = None, lots = 1\<rparr>,
           \<lparr>date = 1, action = BUY_ADD, price = 100, cost = Some 100, pnl = None, lots = 2\<rparr>,
           \<lparr>date = 1, action = SELL_ALL, price = 100, cost = None, pnl = Some 0, lots = 2\<rparr>],
          [(0, 100), (1, 0)])"
  by (simp add: futures_defs)

text \<open>
  C4. The claim: on every valid bar processed while a position is open the add on a dip
  is evaluated before the sale on profit, the profit check uses the average price
  cost basis / size held as it is after an add of the same bar, and so one bar can emit
  a \<open>BUY_ADD\<close> and then a \<open>SELL_ALL\<close>, never the reverse. Below, \<open>s\<close> is the state before
  the bar and \<open>l\<close> its last buy price (every state of a run with an open position has
  one, and it is positive: \<open>stock_loop_total\<close>, \<open>futures_loop_total\<close>). The trades
  of the bar are the add, if the drawdown reaches the threshold, followed by the sale,
  if the price reaches the target on the cost and size after that add. The two runs at
  the end emit both on the bar of date 1; they have a drop threshold and a profit
  target of 0.
\<close>

theorem add_is_evaluated_before_sell:
  "(0 < p \<and> in_position s \<and> last_buy_price s = Some l \<and> l \<noteq> 0 \<longrightarrow>
     (\<exists>s'. stock_bar i a dp pp s (d, Some p) = Inr s' \<and>
        emitted s s' =
          (if dp \<le> (l - p) / l * 100 then [BUY_ADD] else []) @
          (if 0 < position_shares s + (if dp \<le> (l - p) / l * 100 then a / p else 0) \<and>
              (position_cost s + (if dp \<le> (l - p) / l * 100 then a else 0)) /
              (position_shares s + (if dp \<le> (l - p) / l * 100 then a / p else 0)) *
              (1 + pp / 100) \<le> p
           then [SELL_ALL] else []) \<and>
        emitted s s' \<in> {[], [BUY_ADD], [SELL_ALL], [BUY_ADD, SELL_ALL]})) \<and>
   (0 < p \<and> in_position t \<and> last_buy_price t = Some l \<and> l \<noteq> 0 \<and> lv \<noteq> 0 \<longrightarrow>
     (\<exists>t'. futures_bar n dp pp lv t (d, Some p) = Inr t' \<and>
        emitted t t' =
          (if dp \<le> (l - p) / l * 100 then [BUY_ADD] else []) @
          (if 0 < lots_held t + (if dp \<le> (l - p) / l * 100 then 1 else 0) \<and>
              (total_cost t + (if dp \<le> (l - p) / l * 100 then p * lv else 0)) /
              (of_int (lots_held t + (if dp \<le> (l - p) / l * 100 then 1 else 0)) * lv) *
              (1 + pp / 100) \<le> p
           then [SELL_ALL] else []) \<and>
        emitted t t' \<in> {[], [BUY_ADD], [SELL_ALL], [BUY_ADD, SELL_ALL]})) \<and>
   map action (fst (projr (backtest_stock [(0::nat, Some 100), (1, Some 100)] 10000 10000 0 0))) =
     [BUY_INIT, BUY_ADD, SELL_ALL] \<and>
   map action (fst (projr (backtest_futures [(0::nat, Some 100), (1, Some 100)] 1 0 0 1))) =
     [BUY_INIT, BUY_ADD, SELL_ALL]"
proof -
  have A: "\<exists>s'. stock_bar i a dp pp s (d, Some p) = Inr s' \<and>
        emitted s s' =
          (if dp \<le> (l - p) / l * 100 then [BUY_ADD] else []) @
          (if 0 < position_shares s + (if dp \<le> (l - p) / l * 100 then a / p else 0) \<and>
              (position_cost s + (if dp \<le> (l - p) / l * 100 then a else 0)) /
              (position_shares s + (if dp \<le> (l - p) / l * 100 then a / p else 0)) *
              (1 + pp / 100) \<le> p
           then [SELL_ALL] else []) \<and>
        emitted s s' \<in> {[], [BUY_ADD], [SELL_ALL], [BUY_ADD, SELL_ALL]}"
    if h: "0 < p \<and> in_position s \<and> last_buy_price s = Some l \<and> l \<noteq> 0"
  proof -
    from h stock_bar_emits [of p s l i a dp pp d] obtain s' where
      s': "stock_bar i a dp pp s (d, Some p) = Inr s'"
      "emitted s s' =
          (if dp \<le> (l - p) / l * 100 then [BUY_ADD] else []) @
          (if 0 < position_shares s + (if dp \<le> (l - p) / l * 100 then a / p else 0) \<and>
              (position_cost s + (if dp \<le> (l - p) / l * 100 then a else 0)) /
              (position_shares s + (if dp \<le> (l - p) / l * 100 then a / p else 0)) *
              (1 + pp / 100) \<le> p
           then [SELL_ALL] else [])"
      by blast
    from s'(2) have "emitted s s' \<in> {[], [BUY_ADD], [SELL_ALL], [BUY_ADD, SELL_ALL]}"
      by (simp only: add_then_sell_cases)
    with s' show ?thesis by blast
  qed
  have B: "\<exists>t'. futures_bar n dp pp lv t (d, Some p) = Inr t' \<and>
        emitted t t' =
          (if dp \<le> (l - p) / l * 100 then [BUY_ADD] else []) @
          (if 0 < lots_held t + (if dp \<le> (l - p) / l * 100 then 1 else 0) \<and>
              (total_cost t + (if dp \<le> (l - p) / l * 100 then p * lv else 0)) /
              (of_int (lots_held t + (if dp \<le> (l - p) / l * 100 then 1 else 0)) * lv) *
              (1 + pp / 100) \<le> p
           then [SELL_ALL] else []) \<and>
        emitted t t' \<in> {[], [BUY_ADD], [SELL_ALL], [BUY_ADD, SELL_ALL]}"
    if h: "0 < p \<and> in_position t \<and> last_buy_price t = Some l \<and> l \<noteq> 0 \<and> lv \<noteq> 0"
  proof -
    from h futures_bar_emits [of p t l lv n dp pp d] obtain t' where
      t': "futures_bar n dp pp lv t (d, Some p) = Inr t'"
      "emitted t t' =
          (if dp \<le> (l - p) / l * 100 then [BUY_ADD] else []) @
          (if 0 < lots_held t + (if dp \<le> (l - p) / l * 100 then 1 else 0) \<and>
              (total_cost t + (if dp \<le> (l - p) / l * 100 then p * lv else 0)) /
              (of_int (lots_held t + (if dp \<le> (l - p) / l * 100 then 1 else 0)) * lv) *
              (1 + pp / 100) \<le> p
           then [SELL_ALL] else [])"
      by blast
    from t'(2) have "emitted t t' \<in> {[], [BUY_ADD], [SELL_ALL], [BUY_ADD, SELL_ALL]}"
      by (simp only: add_then_sell_cases)
    with t' show ?thesis by blast
  qed
  have C: "map action (fst (projr (backtest_stock [(0::nat, Some 100), (1, Some 100)]
      10000 10000 0 0))) = [BUY_INIT, BUY_ADD, SELL_ALL]"
    unfolding stock_flat_price_run by simp
  have D: "map action (fst (projr (backtest_futures [(0::nat, Some 100), (1, Some 100)]
      1 0 0 1))) = [BUY_INIT, BUY_ADD, SELL_ALL]"
    unfolding futures_flat_price_run by simp
  from A B C D show ?thesis by blast
qed

text \<open>
  The theorem on the third bar of the prices 100, 95, 110: the price 110 is no dip from
  95 and reaches the target on the average of the two buys, so the bar sells only.
\<close>

theorem add_is_evaluated_before_sell_witness:
  "(0::real) < 110 \<and> (95::real) \<noteq> 0 \<and> (1::real) \<noteq> 0 \<and>
   in_position (projr (stock_loop 10000 10000 2 5 stock_init
      (take 2 [(0::nat, Some 100), (1, Some 95), (2, Some 110)]))) \<and>
   last_buy_price (projr (stock_loop 10000 10000 2 5 stock_init
      (take 2 [(0::nat, Some 100), (1, Some 95), (2, Some 110)]))) = Some 95 \<and>
   (\<exists>s'. stock_bar 10000 10000 2 5 (projr (stock_loop 10000 10000 2 5 stock_init
             (take 2 [(0::nat, Some 100), (1, Some 95), (2, Some 110)]))) (2, Some 110) = Inr s' \<and>
         emitted (projr (stock_loop 10000 10000 2 5 stock_init
             (take 2 [(0::nat, Some 100), (1, Some 95), (2, Some 110)]))) s' = [SELL_ALL]) \<and>
   in_position (projr (futures_loop 1 2 5 1 futures_init
      (take 2 [(0::nat, Some 100), (1, Some 95), (2, Some 110)]))) \<and>
   last_buy_price (projr (futures_loop 1 2 5 1 futures_init
      (take 2 [(0::nat, Some 100), (1, Some 95), (2, Some 110)]))) = Some 95 \<and>
   (\<exists>t'. futures_bar 1 2 5 1 (projr (futures_loop 1 2 5 1 futures_init
             (take 2 [(0::nat, Some 100), (1, Some 95), (2, Some 110)]))) (2, Some 110) = Inr t' \<and>
         emitted (projr (futures_loop 1 2 5 1 futures_init
             (take 2 [(0::nat, Some 100), (1, Some 95), (2, Some 110)]))) t' = [SELL_ALL])"
  using add_is_evaluated_before_sell
    [where p = 110 and l = 95 and i = 10000 and a = 10000 and dp = 2 and pp = 5 and d = 2
       and lv = 1 and n = 1
       and s = "projr (stock_loop 10000 10000 2 5 stock_init
          (take 2 [(0::nat, Some 100), (1, Some 95), (2, Some 110)]))"
       and t = "projr (futures_loop 1 2 5 1 futures_init
          (take 2 [(0::nat, Some 100), (1, Some 95), (2, Some 110)]))"]
  unfolding stock_after_two futures_after_two
  by simp blast

section \<open>States used as examples\<close>

lemma stock_add_grows:
  "stock_add a dp d p s = Inr s1 \<Longrightarrow> \<exists>ts. trades s1 = trades s @ ts"
  by (auto simp: stock_add_def Let_def split: option.splits if_splits)

lemma futures_add_grows:
  "futures_add dp lv d p s = Inr s1 \<Longrightarrow> \<exists>ts. trades s1 = trades s @ ts"
  by (auto simp: futures_add_def Let_def split: option.splits if_splits)

text \<open>The state after a first buy at 100: 10000 of currency, or one lot at a lot value of 1.\<close>

lemma stock_after_one:
  "stock_loop 10000 10000 2 5 stock_init [(0::nat, Some 100)] =
   Inr \<lparr>trades =
          [\<lparr>date = 0, action = BUY_INIT, price = 100, cost = Some 10000, pnl = None,
             shares = 100\<rparr>],
        equity = [10000], realized_pnl = 0, last_buy_price = Some 100,
        in_position = True, position_cost = 10000, position_shares = 100\<rparr>"
  by (simp add: stock_defs)

lemma futures_after_one:
  "futures_loop 1 2 5 1 futures_init [(0::nat, Some 100)] =
   Inr \<lparr>trades =
          [\<lparr>date = 0, action = BUY_INIT, price = 100, cost = Some 100, pnl = None, lots = 1\<rparr>],
        equity = [100], realized_pnl = 0, last_buy_price = Some 100, in_position = True,
        total_cost = 100, lots_held = 1\<rparr>"
  by (simp add: futures_defs)

section \<open>Lots and the records of an add\<close>

lemma futures_bar_lots_nonneg:
  assumes "0 < n" "0 \<le> lots_held s" "futures_bar n dp pp lv s bar = Inr s'"
  shows "0 \<le> lots_held s'"
  using assms
  by (cases bar)
     (auto simp: futures_bar_def futures_open_def futures_add_def futures_sell_def Let_def
           split: option.splits if_splits sum.splits)

lemma futures_loop_lots_nonneg:
  "0 < n \<Longrightarrow> 0 \<le> lots_held s \<Longrightarrow> futures_loop n dp pp lv s bars = Inr s' \<Longrightarrow> 0 \<le> lots_held s'"
proof (induction bars arbitrary: s)
  case Nil
  then show ?case by simp
next
  case (Cons bar bars)
  from Cons.prems(3) obtain s1 where s1: "futures_bar n dp pp lv s bar = Inr s1"
    "futures_loop n dp pp lv s1 bars = Inr s'"
    by (auto split: sum.splits)
  from futures_bar_lots_nonneg [OF Cons.prems(1,2) s1(1)] have "0 \<le> lots_held s1" .
  from Cons.IH [OF Cons.prems(1) this s1(2)] show ?case .
qed

lemma futures_add_record:
  assumes "futures_add dp lv d p t = Inr t1" "trades t1 \<noteq> trades t"
  shows "trades t1 = trades t @
           [\<lparr>date = d, action = BUY_ADD, price = py_round p 2,
             cost = Some (py_round (p * lv) 2), pnl = None, lots = lots_held t + 1\<rparr>] \<and>
         lots_held t1 = lots_held t + 1 \<and> total_cost t1 = total_cost t + p * lv"
  using assms by (auto simp: futures_add_def Let_def split: option.splits if_splits)

lemma stock_add_record:
  assumes "stock_add a dp d p s = Inr s1" "trades s1 \<noteq> trades s"
  shows "trades s1 = trades s @
           [\<lparr>date = d, action = BUY_ADD, price = py_round p 2,
             cost = Some a, pnl = None, shares = py_round (a / p) 4\<rparr>] \<and>
         position_shares s1 = position_shares s + a / p \<and>
         position_cost s1 = position_cost s + a"
  using assms by (auto simp: stock_add_def Let_def split: option.splits if_splits)

lemma emitted_nonempty: "emitted s s' \<noteq> [] \<Longrightarrow> trades s' \<noteq> trades s"
  by (auto simp: emitted_def)

lemma futures_sell_emits:
  assumes "0 < lots_held t" "of_int (lots_held t) * lv \<noteq> 0"
  shows "\<exists>t1. futures_sell pp lv d p t = Inr t1 \<and>
           emitted t t1 =
             (if total_cost t / (of_int (lots_held t) * lv) * (1 + pp / 100) \<le> p
              then [SELL_ALL] else [])"
  using assms by (simp add: futures_sell_def emitted_def Let_def)

text \<open>
  C7. The claim: in the futures engine, given a positive integer number of initial lots,
  the lot count is a non-negative integer after every bar, each add raises it by exactly
  1 and raises the cost basis by exactly price times lot value, and the profit check
  uses the average price cost basis / (lots times lot value). The lot count is a Python
  \<^verbatim>\<open>int\<close> that the code only assigns from \<^verbatim>\<open>initial_lots\<close>, increments and resets,
  so it is an \<open>int\<close> here and never fractional; the theorem bounds it from below after
  the first \<open>k\<close> bars, for every \<open>k\<close>. The run returns when the lot value is not 0.
\<close>

theorem lot_count_and_cost_basis:
  "(0 < initial_lots \<and>
    futures_loop initial_lots dp pp lv futures_init (take k bars) = Inr t \<longrightarrow> 0 \<le> lots_held t) \<and>
   (0 < initial_lots \<and> lv \<noteq> 0 \<longrightarrow>
      (\<exists>t. futures_loop initial_lots dp pp lv futures_init (take k bars) = Inr t \<and>
           0 \<le> lots_held t)) \<and>
   (futures_add dp lv d p t0 = Inr t1 \<and> emitted t0 t1 \<noteq> [] \<longrightarrow>
      emitted t0 t1 = [BUY_ADD] \<and> lots_held t1 = lots_held t0 + 1 \<and>
      total_cost t1 = total_cost t0 + p * lv) \<and>
   (0 < lots_held t0 \<and> of_int (lots_held t0) * lv \<noteq> 0 \<longrightarrow>
      (\<exists>t2. futures_sell pp lv d p t0 = Inr t2 \<and>
         emitted t0 t2 =
           (if total_cost t0 / (of_int (lots_held t0) * lv) * (1 + pp / 100) \<le> p
            then [SELL_ALL] else [])))"
proof -
  have init: "0 \<le> lots_held (futures_init :: 'a futures_state)"
    by (simp add: futures_init_def)
  have A: "0 \<le> lots_held t"
    if "0 < initial_lots \<and> futures_loop initial_lots dp pp lv futures_init (take k bars) = Inr t"
    using that futures_loop_lots_nonneg [OF _ init] by blast
  have B: "\<exists>t. futures_loop initial_lots dp pp lv futures_init (take k bars) = Inr t \<and>
      0 \<le> lots_held t" if h: "0 < initial_lots \<and> lv \<noteq> 0"
  proof -
    from h have lv: "lv \<noteq> 0" by simp
    from futures_loop_total [OF entry_ok_futures_init lv] obtain t' where
      t': "futures_loop initial_lots dp pp lv futures_init (take k bars) = Inr t'"
      by blast
    from h futures_loop_lots_nonneg [OF _ init t'] have "0 \<le> lots_held t'" by simp
    with t' show ?thesis by blast
  qed
  have C: "emitted t0 t1 = [BUY_ADD] \<and> lots_held t1 = lots_held t0 + 1 \<and>
      total_cost t1 = total_cost t0 + p * lv"
    if h: "futures_add dp lv d p t0 = Inr t1 \<and> emitted t0 t1 \<noteq> []"
  proof -
    from h have "futures_add dp lv d p t0 = Inr t1" "trades t1 \<noteq> trades t0"
      by (simp_all add: emitted_nonempty)
    from futures_add_record [OF this] show ?thesis by (simp add: emitted_def)
  qed
  have D: "\<exists>t2. futures_sell pp lv d p t0 = Inr t2 \<and>
         emitted t0 t2 =
           (if total_cost t0 / (of_int (lots_held t0) * lv) * (1 + pp / 100) \<le> p
            then [SELL_ALL] else [])"
    if h: "0 < lots_held t0 \<and> of_int (lots_held t0) * lv \<noteq> 0"
    using h futures_sell_emits [of t0 lv pp d p] by blast
  from A B C D show ?thesis by blast
qed

text \<open>
  The theorem on the prices 100, 95, 110 with one initial lot at a lot value of 1: the
  second bar adds a lot, the third sells the two.
\<close>

theorem lot_count_and_cost_basis_witness:
  "(0::int) < 1 \<and> (1::real) \<noteq> 0 \<and>
   0 \<le> lots_held (projr (futures_loop 1 2 5 1 futures_init
          (take 2 [(0::nat, Some 100), (1, Some 95), (2, Some 110)]))) \<and>
   (\<exists>t. futures_loop 1 2 5 1 futures_init
          (take 2 [(0::nat, Some 100), (1, Some 95), (2, Some 110)]) = Inr t \<and> 0 \<le> lots_held t) \<and>
   emitted (projr (futures_loop 1 2 5 1 futures_init [(0::nat, Some 100)]))
     (projr (futures_add 2 1 1 95 (projr (futures_loop 1 2 5 1 futures_init [(0::nat, Some 100)]))))
     = [BUY_ADD] \<and>
   lots_held (projr (futures_add 2 1 1 95
       (projr (futures_loop 1 2 5 1 futures_init [(0::nat, Some 100)])))) = 2 \<and>
   total_cost (projr (futures_add 2 1 1 95
       (projr (futures_loop 1 2 5 1 futures_init [(0::nat, Some 100)])))) = 195 \<and>
   0 < lots_held (projr (futures_loop 1 2 5 1 futures_init
          (take 2 [(0::nat, Some 100), (1, Some 95), (2, Some 110)]))) \<and>
   (\<exists>t2. futures_sell 5 1 2 110 (projr (futures_loop 1 2 5 1 futures_init
          (take 2 [(0::nat, Some 100), (1, Some 95), (2, Some 110)]))) = Inr t2 \<and>
        emitted (projr (futures_loop 1 2 5 1 futures_init
          (take 2 [(0::nat, Some 100), (1, Some 95), (2, Some 110)]))) t2 = [SELL_ALL])"
  using
    lot_count_and_cost_basis
      [where initial_lots = 1 and dp = 2 and pp = 5 and lv = 1 and k = 2
         and bars = "[(0::nat, Some 100), (1, Some 95), (2, Some 110)]"
         and t = "projr (futures_loop 1 2 5 1 futures_init
            (take 2 [(0::nat, Some 100), (1, Some 95), (2, Some 110)]))"
         and d = 1 and p = 95
         and ?t0.0 = "projr (futures_loop 1 2 5 1 futures_init [(0::nat, Some 100)])"
         and ?t1.0 = "projr (futures_add 2 1 1 95
            (projr (futures_loop 1 2 5 1 futures_init [(0::nat, Some 100)])))"]
    lot_count_and_cost_basis
      [where initial_lots = 1 and dp = 2 and pp = 5 and lv = 1 and k = 2
         and bars = "[(0::nat, Some 100), (1, Some 95), (2, Some 110)]"
         and d = 2 and p = 110
         and ?t0.0 = "projr (futures_loop 1 2 5 1 futures_init
            (take 2 [(0::nat, Some 100), (1, Some 95), (2, Some 110)]))"]
  unfolding futures_after_one futures_after_two
  by (simp add: futures_add_def emitted_def Let_def)

text \<open>
  C10. The claim: the \<open>BUY_ADD\<close> records of the two engines differ in what their size
  field holds. The stock engine writes the quantity added on that bar, \<^verbatim>\<open>add_inr / price\<close>
  rounded to four places (line 60), whatever is already held. The futures engine writes
  the lot count held after the add (line 124, written after line 116 has incremented
  it), while its cost field holds the cost of the one lot added, \<^verbatim>\<open>price * lot_value\<close>
  rounded to two places (line 125).
\<close>

theorem add_records_differ:
  "(stock_add a dp d p s = Inr s1 \<and> emitted s s1 \<noteq> [] \<longrightarrow>
      trades s1 = trades s @
        [\<lparr>date = d, action = BUY_ADD, price = py_round p 2, cost = Some a, pnl = None,
          shares = py_round (position_shares s1 - position_shares s) 4\<rparr>] \<and>
      position_shares s1 - position_shares s = a / p \<and>
      position_cost s1 - position_cost s = a) \<and>
   (futures_add dp lv d p t = Inr t1 \<and> emitted t t1 \<noteq> [] \<longrightarrow>
      trades t1 = trades t @
        [\<lparr>date = d, action = BUY_ADD, price = py_round p 2,
          cost = Some (py_round (total_cost t1 - total_cost t) 2), pnl = None,
          lots = lots_held t1\<rparr>] \<and>
      lots_held t1 = lots_held t + 1 \<and>
      total_cost t1 - total_cost t = p * lv)"
proof -
  have A: "trades s1 = trades s @
        [\<lparr>date = d, action = BUY_ADD, price = py_round p 2, cost = Some a, pnl = None,
          shares = py_round (position_shares s1 - position_shares s) 4\<rparr>] \<and>
      position_shares s1 - position_shares s = a / p \<and>
      position_cost s1 - position_cost s = a"
    if h: "stock_add a dp d p s = Inr s1 \<and> emitted s s1 \<noteq> []"
  proof -
    from h have "stock_add a dp d p s = Inr s1" "trades s1 \<noteq> trades s"
      by (simp_all add: emitted_nonempty)
    from stock_add_record [OF this] show ?thesis by simp
  qed
  have B: "trades t1 = trades t @
        [\<lparr>date = d, action = BUY_ADD, price = py_round p 2,
          cost = Some (py_round (total_cost t1 - total_cost t) 2), pnl = None,
          lots = lots_held t1\<rparr>] \<and>
      lots_held t1 = lots_held t + 1 \<and>
      total_cost t1 - total_cost t = p * lv"
    if h: "futures_add dp lv d p t = Inr t1 \<and> emitted t t1 \<noteq> []"
  proof -
    from h have "futures_add dp lv d p t = Inr t1" "trades t1 \<noteq> trades t"
      by (simp_all add: emitted_nonempty)
    from futures_add_record [OF this] show ?thesis by simp
  qed
  from A B show ?thesis by blast
qed

text \<open>
  The theorem on an add at 95 after a first buy at 100: the stock record holds the
  105.2632 shares added (not the 205.26 then held), the futures record the 2 lots then
  held (not the 1 added) at a cost of 95.
\<close>

theorem add_records_differ_witness:
  "emitted (projr (stock_loop 10000 10000 2 5 stock_init [(0::nat, Some 100)]))
     (projr (stock_add 10000 2 1 95
        (projr (stock_loop 10000 10000 2 5 stock_init [(0::nat, Some 100)])))) \<noteq> [] \<and>
   trades (projr (stock_add 10000 2 1 95
        (projr (stock_loop 10000 10000 2 5 stock_init [(0::nat, Some 100)])))) =
     trades (projr (stock_loop 10000 10000 2 5 stock_init [(0::nat, Some 100)])) @
       [\<lparr>date = 1, action = BUY_ADD, price = 95, cost = Some 10000, pnl = None,
         shares = 105.2632\<rparr>] \<and>
   position_shares (projr (stock_add 10000 2 1 95
        (projr (stock_loop 10000 10000 2 5 stock_init [(0::nat, Some 100)])))) = 3900 / 19 \<and>
   emitted (projr (futures_loop 1 2 5 1 futures_init [(0::nat, Some 100)]))
     (projr (futures_add 2 1 1 95
        (projr (futures_loop 1 2 5 1 futures_init [(0::nat, Some 100)])))) \<noteq> [] \<and>
   trades (projr (futures_add 2 1 1 95
        (projr (futures_loop 1 2 5 1 futures_init [(0::nat, Some 100)])))) =
     trades (projr (futures_loop 1 2 5 1 futures_init [(0::nat, Some 100)])) @
       [\<lparr>date = 1, action = BUY_ADD, price = 95, cost = Some 95, pnl = None, lots = 2\<rparr>] \<and>
   lots_held (projr (futures_add 2 1 1 95
        (projr (futures_loop 1 2 5 1 futures_init [(0::nat, Some 100)])))) = 2"
  using
    add_records_differ
      [where a = 10000 and dp = 2 and d = 1 and p = 95 and lv = 1
         and s = "projr (stock_loop 10000 10000 2 5 stock_init [(0::nat, Some 100)])"
         and ?s1.0 = "projr (stock_add 10000 2 1 95
            (projr (stock_loop 10000 10000 2 5 stock_init [(0::nat, Some 100)])))"
         and t = "projr (futures_loop 1 2 5 1 futures_init [(0::nat, Some 100)])"
         and ?t1.0 = "projr (futures_add 2 1 1 95
            (projr (futures_loop 1 2 5 1 futures_init [(0::nat, Some 100)])))"]
  unfolding stock_after_one futures_after_one
  by (simp add: stock_add_def futures_add_def emitted_def py_round_def Let_def)

section \<open>Inside the ranges of the specification no bar both adds and sells\<close>

text \<open>
  The two runs above that add and sell on one bar have a drop threshold and a profit
  target of 0. With positive amounts, a positive drop threshold and a profit target of 0 or
  more, every add is at a price below the last buy, hence below the average price after
  the add, and the profit check of the same bar fails.
\<close>

lemma add_price_below_average:
  fixes a dp pp p l c q :: real
  assumes "0 < a" "0 < dp" "0 \<le> pp" "0 < p" "0 < l" "0 < q" "l * q \<le> c"
    "dp \<le> (l - p) / l * 100"
  shows "p < (c + a) / (q + a / p) * (1 + pp / 100) \<and> 0 < q + a / p \<and>
         p * (q + a / p) \<le> c + a"
proof -
  have pl: "p < l"
  proof (rule ccontr)
    assume "\<not> p < l"
    then have "l - p \<le> 0" by simp
    with assms(5) have "(l - p) / l \<le> 0" by (simp add: divide_le_0_iff)
    then have "(l - p) / l * 100 \<le> 0" by (rule mult_nonpos_nonneg) simp
    with assms(2,8) show False by linarith
  qed
  have q': "0 < q + a / p" using assms(1,4,6) by (simp add: add_pos_pos)
  have "p * (q + a / p) = p * q + a" using assms(4) by (simp add: field_simps)
  also have "\<dots> < l * q + a" using pl assms(6) by simp
  also have "\<dots> \<le> c + a" using assms(7) by simp
  finally have lt: "p * (q + a / p) < c + a" .
  define x where "x = (c + a) / (q + a / p)"
  from lt q' have avg: "p < x" by (simp add: x_def pos_less_divide_eq)
  with assms(4) have x: "0 \<le> x" by simp
  have "x * 1 \<le> x * (1 + pp / 100)"
    using x assms(3) by (intro mult_left_mono) simp_all
  with avg have "p < x * (1 + pp / 100)" by simp
  with q' lt show ?thesis by (simp add: x_def)
qed

lemma stock_bar_avg_ok:
  assumes "0 < i" "0 < a" "0 < dp" "0 \<le> pp" "stock_avg_ok s"
    "stock_bar i a dp pp s bar = Inr s'"
  shows "stock_avg_ok s' \<and> emitted s s' \<noteq> [BUY_ADD, SELL_ALL]"
proof (cases "valid_bar bar")
  case False
  then show ?thesis using assms by (simp add: stock_bar_invalid emitted_def)
next
  case True
  then obtain d p where bar: "bar = (d, Some p)" and p: "0 < p"
    by (cases bar) (auto simp: valid_bar_def split: option.splits)
  show ?thesis
  proof (cases "in_position s")
    case False
    then show ?thesis using assms bar p
      by (auto simp: stock_bar_def stock_open_def stock_avg_ok_def emitted_def Let_def)
  next
    case True
    with assms(5) obtain l where l: "last_buy_price s = Some l" "0 < l"
      "0 < position_shares s" "l * position_shares s \<le> position_cost s"
      by (auto simp: stock_avg_ok_def split: option.splits)
    show ?thesis
    proof (cases "dp \<le> (l - p) / l * 100")
      case add: True
      from add_price_below_average [OF assms(2,3,4) p l(2,3,4) add]
      have "p < (position_cost s + a) / (position_shares s + a / p) * (1 + pp / 100)"
        "0 < position_shares s + a / p"
        "p * (position_shares s + a / p) \<le> position_cost s + a"
        by simp_all
      then show ?thesis using assms(6) bar p True l add
        by (auto simp: stock_bar_def stock_add_def stock_sell_def stock_avg_ok_def emitted_def
              Let_def)
    next
      case False
      then show ?thesis using assms(5,6) bar p True l
        by (auto simp: stock_bar_def stock_add_def stock_sell_def stock_avg_ok_def emitted_def
              Let_def split: if_splits)
    qed
  qed
qed

lemma stock_loop_avg_ok:
  "0 < i \<Longrightarrow> 0 < a \<Longrightarrow> 0 < dp \<Longrightarrow> 0 \<le> pp \<Longrightarrow> stock_avg_ok s \<Longrightarrow>
     stock_loop i a dp pp s bars = Inr s' \<Longrightarrow> stock_avg_ok s'"
proof (induction bars arbitrary: s)
  case Nil
  then show ?case by simp
next
  case (Cons bar bars)
  from Cons.prems(6) obtain s1 where s1: "stock_bar i a dp pp s bar = Inr s1"
    "stock_loop i a dp pp s1 bars = Inr s'"
    by (auto split: sum.splits)
  from stock_bar_avg_ok [OF Cons.prems(1,2,3,4,5) s1(1)] have "stock_avg_ok s1" by simp
  from Cons.IH [OF Cons.prems(1,2,3,4) this s1(2)] show ?case .
qed

lemma stock_never_adds_and_sells:
  assumes "0 < i" "0 < a" "0 < dp" "0 \<le> pp"
    "stock_loop i a dp pp stock_init bars = Inr s" "stock_bar i a dp pp s bar = Inr s'"
  shows "emitted s s' \<noteq> [BUY_ADD, SELL_ALL]"
proof -
  have "stock_avg_ok (stock_init :: 'a stock_state)"
    by (simp add: stock_avg_ok_def stock_init_def)
  from stock_loop_avg_ok [OF assms(1,2,3,4) this assms(5)] have "stock_avg_ok s" .
  from stock_bar_avg_ok [OF assms(1,2,3,4) this assms(6)] show ?thesis by simp
qed

section \<open>The exact arithmetic is one arithmetic\<close>

lemma exact_simps [simp]:
  "fadd exact = (+)" "fsub exact = (-)" "fmul exact = (*)" "fdiv exact = (/)"
  "fround exact = py_round"
  by (simp_all add: exact_def)

lemma stock_open_fl_exact [simp]: "stock_open_fl exact i d p s = stock_open i d p s"
  by (simp add: stock_open_fl_def stock_open_def)

lemma stock_add_fl_exact [simp]: "stock_add_fl exact a dp d p s = stock_add a dp d p s"
  by (simp add: stock_add_fl_def stock_add_def split: option.splits)

lemma stock_sell_fl_exact [simp]: "stock_sell_fl exact pp d p s = stock_sell pp d p s"
  by (simp add: stock_sell_fl_def stock_sell_def)

lemma stock_mark_fl_exact [simp]: "stock_mark_fl exact p s = stock_mark p s"
  by (simp add: stock_mark_fl_def stock_mark_def)

lemma stock_bar_fl_exact [simp]: "stock_bar_fl exact i a dp pp s bar = stock_bar i a dp pp s bar"
  by (simp add: stock_bar_fl_def stock_bar_def split: prod.splits option.splits sum.splits)

lemma stock_loop_fl_exact [simp]:
  "stock_loop_fl exact i a dp pp s bars = stock_loop i a dp pp s bars"
  by (induction bars arbitrary: s) (simp_all split: sum.splits)

lemma backtest_stock_fl_exact:
  "backtest_stock_fl exact prices i a dp pp = backtest_stock prices i a dp pp"
  by (simp add: backtest_stock_fl_def backtest_stock_def)

lemma futures_open_fl_exact [simp]: "futures_open_fl exact n lv d p s = futures_open n lv d p s"
  by (simp add: futures_open_fl_def futures_open_def)

lemma futures_add_fl_exact [simp]: "futures_add_fl exact dp lv d p s = futures_add dp lv d p s"
  by (simp add: futures_add_fl_def futures_add_def split: option.splits)

lemma futures_sell_fl_exact [simp]: "futures_sell_fl exact pp lv d p s = futures_sell pp lv d p s"
  by (simp add: futures_sell_fl_def futures_sell_def)

lemma futures_mark_fl_exact [simp]: "futures_mark_fl exact lv p s = futures_mark lv p s"
  by (simp add: futures_mark_fl_def futures_mark_def)

lemma futures_bar_fl_exact [simp]:
  "futures_bar_fl exact n dp pp lv s bar = futures_bar n dp pp lv s bar"
  by (simp add: futures_bar_fl_def futures_bar_def split: prod.splits option.splits sum.splits)

lemma futures_loop_fl_exact [simp]:
  "futures_loop_fl exact n dp pp lv s bars = futures_loop n dp pp lv s bars"
  by (induction bars arbitrary: s) (simp_all split: sum.splits)

lemma backtest_futures_fl_exact:
  "backtest_futures_fl exact prices n dp pp lv = backtest_futures prices n dp pp lv"
  by (simp add: backtest_futures_fl_def backtest_futures_def)

section \<open>Runs over any arithmetic\<close>

lemma stock_bar_fl_invalid: "\<not> valid_bar bar \<Longrightarrow> stock_bar_fl ops i a dp pp s bar = Inr s"
  by (cases bar) (auto simp: valid_bar_def stock_bar_fl_def split: option.splits)

lemma futures_bar_fl_invalid: "\<not> valid_bar bar \<Longrightarrow> futures_bar_fl ops n dp pp lv s bar = Inr s"
  by (cases bar) (auto simp: valid_bar_def futures_bar_fl_def split: option.splits)

lemma stock_mark_fl_simps [simp]:
  "trades (stock_mark_fl ops p s) = trades s"
  "in_position (stock_mark_fl ops p s) = in_position s"
  "last_buy_price (stock_mark_fl ops p s) = last_buy_price s"
  "realized_pnl (stock_mark_fl ops p s) = realized_pnl s"
  "position_cost (stock_mark_fl ops p s) = position_cost s"
  "position_shares (stock_mark_fl ops p s) = position_shares s"
  "length (equity (stock_mark_fl ops p s)) = Suc (length (equity s))"
  by (simp_all add: stock_mark_fl_def Let_def)

lemma futures_mark_fl_simps [simp]:
  "trades (futures_mark_fl ops lv p s) = trades s"
  "in_position (futures_mark_fl ops lv p s) = in_position s"
  "last_buy_price (futures_mark_fl ops lv p s) = last_buy_price s"
  "realized_pnl (futures_mark_fl ops lv p s) = realized_pnl s"
  "total_cost (futures_mark_fl ops lv p s) = total_cost s"
  "lots_held (futures_mark_fl ops lv p s) = lots_held s"
  "length (equity (futures_mark_fl ops lv p s)) = Suc (length (equity s))"
  by (simp_all add: futures_mark_fl_def Let_def)

lemma stock_mark_fl_equity:
  "equity (stock_mark_fl ops p s) =
     equity s @ [fadd ops (realized_pnl s) (if in_position s then fmul ops (position_shares s) p else 0)]"
  by (simp add: stock_mark_fl_def Let_def)

lemma futures_mark_fl_equity:
  "equity (futures_mark_fl ops lv p s) =
     equity s @ [fadd ops (realized_pnl s)
       (if in_position s then fmul ops (fmul ops (of_int (lots_held s)) p) lv else 0)]"
  by (simp add: futures_mark_fl_def Let_def)

lemma entry_ok_stock_mark_fl [simp]: "entry_ok (stock_mark_fl ops p s) = entry_ok s"
  by (simp add: entry_ok_def)

lemma entry_ok_futures_mark_fl [simp]: "entry_ok (futures_mark_fl ops lv p s) = entry_ok s"
  by (simp add: entry_ok_def)

lemma stock_add_fl_total:
  assumes "entry_ok s" "in_position s"
  shows "\<exists>s'. stock_add_fl ops a dp d p s = Inr s' \<and> in_position s' \<and> equity s' = equity s
           \<and> (\<exists>ts. trades s' = trades s @ ts)
           \<and> (last_buy_price s' = last_buy_price s \<or> last_buy_price s' = Some p)"
  using assms by (auto simp: entry_ok_def stock_add_fl_def Let_def split: option.splits)

lemma stock_sell_fl_entry:
  "0 < p \<Longrightarrow> in_position s \<Longrightarrow> last_buy_price s = Some l \<and> 0 < l
     \<Longrightarrow> entry_ok (stock_sell_fl ops pp d p s) \<and> equity (stock_sell_fl ops pp d p s) = equity s
        \<and> (\<exists>ts. trades (stock_sell_fl ops pp d p s) = trades s @ ts)"
  by (auto simp: entry_ok_def stock_sell_fl_def Let_def)

lemma stock_bar_fl_total:
  assumes "entry_ok s"
  shows "\<exists>s'. stock_bar_fl ops i a dp pp s bar = Inr s' \<and> entry_ok s'
           \<and> length (equity s') = length (equity s) + (if valid_bar bar then 1 else 0)
           \<and> (\<exists>ts. trades s' = trades s @ ts) \<and> (\<exists>es. equity s' = equity s @ es)"
proof (cases "valid_bar bar")
  case False
  then show ?thesis using assms by (simp add: stock_bar_fl_invalid)
next
  case True
  then obtain d p where bar: "bar = (d, Some p)" and p: "0 < p"
    by (cases bar) (auto simp: valid_bar_def split: option.splits)
  show ?thesis
  proof (cases "in_position s")
    case False
    then show ?thesis using p bar True
      by (simp add: stock_bar_fl_def entry_ok_def stock_open_fl_def stock_mark_fl_def Let_def)
  next
    case pos: True
    from stock_add_fl_total [OF assms pos, of ops a dp d p] obtain s1 ts1 where
      s1: "stock_add_fl ops a dp d p s = Inr s1" "in_position s1" "equity s1 = equity s"
        "trades s1 = trades s @ ts1"
        "last_buy_price s1 = last_buy_price s \<or> last_buy_price s1 = Some p"
      by blast
    from assms pos obtain l where l: "last_buy_price s = Some l" "0 < l"
      by (auto simp: entry_ok_def split: option.splits)
    from s1(5) l p obtain l' where "last_buy_price s1 = Some l' \<and> 0 < l'" by auto
    from stock_sell_fl_entry [OF p s1(2) this, of ops pp d] obtain ts2 where
      s2: "entry_ok (stock_sell_fl ops pp d p s1)"
        "equity (stock_sell_fl ops pp d p s1) = equity s1"
        "trades (stock_sell_fl ops pp d p s1) = trades s1 @ ts2"
      by blast
    show ?thesis using p bar True pos s1 s2
      by (simp add: stock_bar_fl_def stock_mark_fl_equity)
  qed
qed

lemma stock_loop_fl_total:
  "entry_ok s \<Longrightarrow> \<exists>s'. stock_loop_fl ops i a dp pp s bars = Inr s' \<and> entry_ok s'
      \<and> length (equity s') = length (equity s) + length (filter valid_bar bars)
      \<and> (\<exists>ts. trades s' = trades s @ ts) \<and> (\<exists>es. equity s' = equity s @ es)"
proof (induction bars arbitrary: s)
  case Nil
  then show ?case by simp
next
  case (Cons bar bars)
  from stock_bar_fl_total [OF Cons.prems, of ops i a dp pp bar] obtain s1 ts1 es1 where
    s1: "stock_bar_fl ops i a dp pp s bar = Inr s1" "entry_ok s1"
      "length (equity s1) = length (equity s) + (if valid_bar bar then 1 else 0)"
      "trades s1 = trades s @ ts1" "equity s1 = equity s @ es1"
    by blast
  from Cons.IH [OF s1(2)] obtain s2 ts2 es2 where
    s2: "stock_loop_fl ops i a dp pp s1 bars = Inr s2" "entry_ok s2"
    "length (equity s2) = length (equity s1) + length (filter valid_bar bars)"
    "trades s2 = trades s1 @ ts2" "equity s2 = equity s1 @ es2"
    by blast
  show ?case using s1 s2 by simp
qed

lemma futures_add_fl_total:
  assumes "entry_ok s" "in_position s"
  shows "\<exists>s'. futures_add_fl ops dp lv d p s = Inr s' \<and> in_position s' \<and> equity s' = equity s
           \<and> (\<exists>ts. trades s' = trades s @ ts)
           \<and> (last_buy_price s' = last_buy_price s \<or> last_buy_price s' = Some p)"
  using assms by (auto simp: entry_ok_def futures_add_fl_def Let_def split: option.splits)

lemma futures_sell_fl_total:
  assumes "\<forall>k. 0 < k \<longrightarrow> fmul ops (of_int k) lv \<noteq> 0" "0 < p" "in_position s"
    "last_buy_price s = Some l \<and> 0 < l"
  shows "\<exists>s'. futures_sell_fl ops pp lv d p s = Inr s' \<and> entry_ok s' \<and> equity s' = equity s
           \<and> (\<exists>ts. trades s' = trades s @ ts)"
  using assms by (auto simp: entry_ok_def futures_sell_fl_def Let_def)

lemma futures_bar_fl_total:
  assumes "entry_ok s" "\<forall>k. 0 < k \<longrightarrow> fmul ops (of_int k) lv \<noteq> 0"
  shows "\<exists>s'. futures_bar_fl ops n dp pp lv s bar = Inr s' \<and> entry_ok s'
           \<and> length (equity s') = length (equity s) + (if valid_bar bar then 1 else 0)
           \<and> (\<exists>ts. trades s' = trades s @ ts) \<and> (\<exists>es. equity s' = equity s @ es)"
proof (cases "valid_bar bar")
  case False
  then show ?thesis using assms by (simp add: futures_bar_fl_invalid)
next
  case True
  then obtain d p where bar: "bar = (d, Some p)" and p: "0 < p"
    by (cases bar) (auto simp: valid_bar_def split: option.splits)
  show ?thesis
  proof (cases "in_position s")
    case False
    then show ?thesis using p bar True
      by (simp add: futures_bar_fl_def entry_ok_def futures_open_fl_def futures_mark_fl_def
            Let_def)
  next
    case pos: True
    from futures_add_fl_total [OF assms(1) pos, of ops dp lv d p] obtain s1 ts1 where
      s1: "futures_add_fl ops dp lv d p s = Inr s1" "in_position s1" "equity s1 = equity s"
        "trades s1 = trades s @ ts1"
        "last_buy_price s1 = last_buy_price s \<or> last_buy_price s1 = Some p"
      by blast
    from assms pos obtain l where l: "last_buy_price s = Some l" "0 < l"
      by (auto simp: entry_ok_def split: option.splits)
    from s1(5) l p obtain l' where "last_buy_price s1 = Some l' \<and> 0 < l'" by auto
    from futures_sell_fl_total [OF assms(2) p s1(2) this, of pp d] obtain s2 ts2 where
      s2: "futures_sell_fl ops pp lv d p s1 = Inr s2" "entry_ok s2" "equity s2 = equity s1"
        "trades s2 = trades s1 @ ts2"
      by blast
    show ?thesis using p bar True pos s1 s2
      by (simp add: futures_bar_fl_def futures_mark_fl_equity)
  qed
qed

lemma futures_loop_fl_total:
  "entry_ok s \<Longrightarrow> \<forall>k. 0 < k \<longrightarrow> fmul ops (of_int k) lv \<noteq> 0 \<Longrightarrow>
     \<exists>s'. futures_loop_fl ops n dp pp lv s bars = Inr s' \<and> entry_ok s'
      \<and> length (equity s') = length (equity s) + length (filter valid_bar bars)
      \<and> (\<exists>ts. trades s' = trades s @ ts) \<and> (\<exists>es. equity s' = equity s @ es)"
proof (induction bars arbitrary: s)
  case Nil
  then show ?case by simp
next
  case (Cons bar bars)
  from futures_bar_fl_total [OF Cons.prems, of n dp pp bar] obtain s1 ts1 es1 where
    s1: "futures_bar_fl ops n dp pp lv s bar = Inr s1" "entry_ok s1"
      "length (equity s1) = length (equity s) + (if valid_bar bar then 1 else 0)"
      "trades s1 = trades s @ ts1" "equity s1 = equity s @ es1"
    by blast
  from Cons.IH [OF s1(2) Cons.prems(2)] obtain s2 ts2 es2 where
    s2: "futures_loop_fl ops n dp pp lv s1 bars = Inr s2" "entry_ok s2"
    "length (equity s2) = length (equity s1) + length (filter valid_bar bars)"
    "trades s2 = trades s1 @ ts2" "equity s2 = equity s1 @ es2"
    by blast
  show ?case using s1 s2 by simp
qed

section \<open>The two thresholds, on the values as computed\<close>

lemma stock_bar_fl_adds_at_threshold:
  assumes "0 < p" "in_position s" "last_buy_price s = Some l" "l \<noteq> 0"
    "dp \<le> fmul ops (fdiv ops (fsub ops l p) l) 100"
  shows "\<exists>s'. stock_bar_fl ops i a dp pp s (d, Some p) = Inr s' \<and> BUY_ADD \<in> set (emitted s s')"
  using assms
  by (simp add: stock_bar_fl_def stock_add_fl_def stock_sell_fl_def emitted_def Let_def)

lemma stock_bar_fl_sells_at_target:
  assumes "0 < p" "in_position s" "stock_add_fl ops a dp d p s = Inr s1"
    "0 < position_shares s1"
    "fmul ops (fdiv ops (position_cost s1) (position_shares s1)) (fadd ops 1 (fdiv ops pp 100)) \<le> p"
  shows "\<exists>s'. stock_bar_fl ops i a dp pp s (d, Some p) = Inr s' \<and> SELL_ALL \<in> set (emitted s s')"
proof -
  from assms(3) obtain ts where ts: "trades s1 = trades s @ ts"
    by (auto simp: stock_add_fl_def Let_def split: option.splits if_splits)
  have "\<exists>r. trades (stock_sell_fl ops pp d p s1) = trades s1 @ [r] \<and> action r = SELL_ALL"
    using assms(4,5) by (simp add: stock_sell_fl_def Let_def)
  then obtain r where
    r: "trades (stock_sell_fl ops pp d p s1) = trades s1 @ [r]" "action r = SELL_ALL"
    by blast
  have "stock_bar_fl ops i a dp pp s (d, Some p) =
      Inr (stock_mark_fl ops p (stock_sell_fl ops pp d p s1))"
    using assms(1,2,3) by (simp add: stock_bar_fl_def)
  moreover have "SELL_ALL \<in> set (emitted s (stock_mark_fl ops p (stock_sell_fl ops pp d p s1)))"
    using ts r by (simp add: emitted_def)
  ultimately show ?thesis by blast
qed

lemma futures_bar_fl_adds_at_threshold:
  assumes "0 < p" "in_position s" "last_buy_price s = Some l" "l \<noteq> 0"
    "fmul ops (of_int (lots_held s + 1)) lv \<noteq> 0"
    "dp \<le> fmul ops (fdiv ops (fsub ops l p) l) 100"
  shows "\<exists>s'. futures_bar_fl ops n dp pp lv s (d, Some p) = Inr s' \<and>
           BUY_ADD \<in> set (emitted s s')"
  using assms
  by (simp add: futures_bar_fl_def futures_add_fl_def futures_sell_fl_def emitted_def Let_def)

lemma futures_bar_fl_sells_at_target:
  assumes "0 < p" "in_position s" "futures_add_fl ops dp lv d p s = Inr s1" "0 < lots_held s1"
    "fmul ops (of_int (lots_held s1)) lv \<noteq> 0"
    "fmul ops (fdiv ops (total_cost s1) (fmul ops (of_int (lots_held s1)) lv))
       (fadd ops 1 (fdiv ops pp 100)) \<le> p"
  shows "\<exists>s'. futures_bar_fl ops n dp pp lv s (d, Some p) = Inr s' \<and>
           SELL_ALL \<in> set (emitted s s')"
proof -
  from assms(3) obtain ts where ts: "trades s1 = trades s @ ts"
    by (auto simp: futures_add_fl_def Let_def split: option.splits if_splits)
  have "\<exists>s2 r. futures_sell_fl ops pp lv d p s1 = Inr s2 \<and> trades s2 = trades s1 @ [r] \<and>
      action r = SELL_ALL"
    using assms(4,5,6) by (simp add: futures_sell_fl_def Let_def)
  then obtain s2 r where
    r: "futures_sell_fl ops pp lv d p s1 = Inr s2" "trades s2 = trades s1 @ [r]"
      "action r = SELL_ALL"
    by blast
  have "futures_bar_fl ops n dp pp lv s (d, Some p) = Inr (futures_mark_fl ops lv p s2)"
    using assms(1,2,3) r(1) by (simp add: futures_bar_fl_def)
  moreover have "SELL_ALL \<in> set (emitted s (futures_mark_fl ops lv p s2))"
    using ts r by (simp add: emitted_def)
  ultimately show ?thesis by blast
qed

text \<open>
  C8. The claim: both thresholds are inclusive. A bar whose computed drawdown is exactly
  the drop percentage triggers an add, and a bar whose price is exactly the average
  price times (1 + profit percentage / 100) triggers a sale. The two sides of each
  comparison are the values the code computes, so the statement is over every
  arithmetic \<open>ops\<close>: the drawdown is that of lines 50 and 114, from the last buy price
  \<open>l\<close> of the state before the bar, and the target is that of lines 65, 66, 129 and 130,
  on the state \<open>s1\<close> that the add step leaves (the state before the bar when nothing was
  added). Whether a given price and percentage meet at equality depends on the
  arithmetic; that they trigger when they do does not. In the futures engine the product
  that line 129 divides by is not 0.
\<close>

theorem thresholds_are_inclusive_as_computed:
  "(0 < p \<and> in_position s \<and> last_buy_price s = Some l \<and> l \<noteq> 0 \<and>
    fmul ops (fdiv ops (fsub ops l p) l) 100 = dp \<longrightarrow>
      (\<exists>s'. stock_bar_fl ops i a dp pp s (d, Some p) = Inr s' \<and> BUY_ADD \<in> set (emitted s s'))) \<and>
   (0 < p \<and> in_position s \<and> stock_add_fl ops a dp d p s = Inr s1 \<and> 0 < position_shares s1 \<and>
    p = fmul ops (fdiv ops (position_cost s1) (position_shares s1)) (fadd ops 1 (fdiv ops pp 100)) \<longrightarrow>
      (\<exists>s'. stock_bar_fl ops i a dp pp s (d, Some p) = Inr s' \<and> SELL_ALL \<in> set (emitted s s'))) \<and>
   (0 < p \<and> in_position t \<and> last_buy_price t = Some l \<and> l \<noteq> 0 \<and>
    fmul ops (of_int (lots_held t + 1)) lv \<noteq> 0 \<and>
    fmul ops (fdiv ops (fsub ops l p) l) 100 = dp \<longrightarrow>
      (\<exists>t'. futures_bar_fl ops n dp pp lv t (d, Some p) = Inr t' \<and>
            BUY_ADD \<in> set (emitted t t'))) \<and>
   (0 < p \<and> in_position t \<and> futures_add_fl ops dp lv d p t = Inr t1 \<and> 0 < lots_held t1 \<and>
    fmul ops (of_int (lots_held t1)) lv \<noteq> 0 \<and>
    p = fmul ops (fdiv ops (total_cost t1) (fmul ops (of_int (lots_held t1)) lv))
          (fadd ops 1 (fdiv ops pp 100)) \<longrightarrow>
      (\<exists>t'. futures_bar_fl ops n dp pp lv t (d, Some p) = Inr t' \<and>
            SELL_ALL \<in> set (emitted t t')))"
proof -
  have A: "\<exists>s'. stock_bar_fl ops i a dp pp s (d, Some p) = Inr s' \<and> BUY_ADD \<in> set (emitted s s')"
    if "0 < p \<and> in_position s \<and> last_buy_price s = Some l \<and> l \<noteq> 0 \<and>
        fmul ops (fdiv ops (fsub ops l p) l) 100 = dp"
  proof -
    from that have "dp \<le> fmul ops (fdiv ops (fsub ops l p) l) 100" by simp
    with that stock_bar_fl_adds_at_threshold [of p s l dp ops i a pp d] show ?thesis by blast
  qed
  have B: "\<exists>s'. stock_bar_fl ops i a dp pp s (d, Some p) = Inr s' \<and> SELL_ALL \<in> set (emitted s s')"
    if "0 < p \<and> in_position s \<and> stock_add_fl ops a dp d p s = Inr s1 \<and> 0 < position_shares s1 \<and>
        p = fmul ops (fdiv ops (position_cost s1) (position_shares s1))
              (fadd ops 1 (fdiv ops pp 100))"
  proof -
    from that have "fmul ops (fdiv ops (position_cost s1) (position_shares s1))
        (fadd ops 1 (fdiv ops pp 100)) \<le> p" by simp
    with that stock_bar_fl_sells_at_target [of p s ops a dp d s1 pp i] show ?thesis by blast
  qed
  have C: "\<exists>t'. futures_bar_fl ops n dp pp lv t (d, Some p) = Inr t' \<and>
      BUY_ADD \<in> set (emitted t t')"
    if "0 < p \<and> in_position t \<and> last_buy_price t = Some l \<and> l \<noteq> 0 \<and>
        fmul ops (of_int (lots_held t + 1)) lv \<noteq> 0 \<and>
        fmul ops (fdiv ops (fsub ops l p) l) 100 = dp"
  proof -
    from that have "dp \<le> fmul ops (fdiv ops (fsub ops l p) l) 100" by simp
    with that futures_bar_fl_adds_at_threshold [of p t l ops lv dp n pp d] show ?thesis by blast
  qed
  have D: "\<exists>t'. futures_bar_fl ops n dp pp lv t (d, Some p) = Inr t' \<and>
      SELL_ALL \<in> set (emitted t t')"
    if "0 < p \<and> in_position t \<and> futures_add_fl ops dp lv d p t = Inr t1 \<and> 0 < lots_held t1 \<and>
        fmul ops (of_int (lots_held t1)) lv \<noteq> 0 \<and>
        p = fmul ops (fdiv ops (total_cost t1) (fmul ops (of_int (lots_held t1)) lv))
              (fadd ops 1 (fdiv ops pp 100))"
  proof -
    from that have "fmul ops (fdiv ops (total_cost t1) (fmul ops (of_int (lots_held t1)) lv))
        (fadd ops 1 (fdiv ops pp 100)) \<le> p" by simp
    with that futures_bar_fl_sells_at_target [of p t ops dp lv d t1 pp n] show ?thesis by blast
  qed
  from A B C D show ?thesis by blast
qed

text \<open>
  The theorem in the exact arithmetic, on the bar after a first buy at 100 (10000 of
  currency, or one lot at a lot value of 1): a price of 98 is a drawdown of exactly 2
  per cent, and a price of 105 is exactly the average price 100 times 1.05. Doubles
  compute the same four values.
\<close>

theorem thresholds_are_inclusive_as_computed_witness:
  "(0::real) < 98 \<and> (0::real) < 105 \<and> (100::real) \<noteq> 0 \<and>
   fmul exact (fdiv exact (fsub exact 100 98) 100) 100 = 2 \<and>
   in_position (projr (stock_loop 10000 10000 2 5 stock_init [(0::nat, Some 100)])) \<and>
   last_buy_price (projr (stock_loop 10000 10000 2 5 stock_init [(0::nat, Some 100)])) = Some 100 \<and>
   (\<exists>s'. stock_bar_fl exact 10000 10000 2 5
            (projr (stock_loop 10000 10000 2 5 stock_init [(0::nat, Some 100)])) (1, Some 98) =
            Inr s' \<and>
         BUY_ADD \<in> set (emitted
            (projr (stock_loop 10000 10000 2 5 stock_init [(0::nat, Some 100)])) s')) \<and>
   stock_add_fl exact 10000 2 1 105
       (projr (stock_loop 10000 10000 2 5 stock_init [(0::nat, Some 100)])) =
     Inr (projr (stock_loop 10000 10000 2 5 stock_init [(0::nat, Some 100)])) \<and>
   0 < position_shares (projr (stock_loop 10000 10000 2 5 stock_init [(0::nat, Some 100)])) \<and>
   105 = fmul exact
           (fdiv exact
              (position_cost (projr (stock_loop 10000 10000 2 5 stock_init [(0::nat, Some 100)])))
              (position_shares (projr (stock_loop 10000 10000 2 5 stock_init [(0::nat, Some 100)]))))
           (fadd exact 1 (fdiv exact 5 100)) \<and>
   (\<exists>s'. stock_bar_fl exact 10000 10000 2 5
            (projr (stock_loop 10000 10000 2 5 stock_init [(0::nat, Some 100)])) (1, Some 105) =
            Inr s' \<and>
         SELL_ALL \<in> set (emitted
            (projr (stock_loop 10000 10000 2 5 stock_init [(0::nat, Some 100)])) s')) \<and>
   in_position (projr (futures_loop 1 2 5 1 futures_init [(0::nat, Some 100)])) \<and>
   last_buy_price (projr (futures_loop 1 2 5 1 futures_init [(0::nat, Some 100)])) = Some 100 \<and>
   fmul exact (of_int (lots_held (projr (futures_loop 1 2 5 1 futures_init [(0::nat, Some 100)]))
      + 1)) 1 \<noteq> 0 \<and>
   (\<exists>t'. futures_bar_fl exact 1 2 5 1
            (projr (futures_loop 1 2 5 1 futures_init [(0::nat, Some 100)])) (1, Some 98) = Inr t' \<and>
         BUY_ADD \<in> set (emitted
            (projr (futures_loop 1 2 5 1 futures_init [(0::nat, Some 100)])) t')) \<and>
   futures_add_fl exact 2 1 1 105 (projr (futures_loop 1 2 5 1 futures_init [(0::nat, Some 100)])) =
     Inr (projr (futures_loop 1 2 5 1 futures_init [(0::nat, Some 100)])) \<and>
   0 < lots_held (projr (futures_loop 1 2 5 1 futures_init [(0::nat, Some 100)])) \<and>
   105 = fmul exact
           (fdiv exact
              (total_cost (projr (futures_loop 1 2 5 1 futures_init [(0::nat, Some 100)])))
              (fmul exact
                 (of_int (lots_held (projr (futures_loop 1 2 5 1 futures_init [(0::nat, Some 100)]))))
                 1))
           (fadd exact 1 (fdiv exact 5 100)) \<and>
   (\<exists>t'. futures_bar_fl exact 1 2 5 1
            (projr (futures_loop 1 2 5 1 futures_init [(0::nat, Some 100)])) (1, Some 105) = Inr t' \<and>
         SELL_ALL \<in> set (emitted
            (projr (futures_loop 1 2 5 1 futures_init [(0::nat, Some 100)])) t'))"
  using
    thresholds_are_inclusive_as_computed
      [where ops = exact and p = 98 and l = 100 and dp = 2 and pp = 5 and i = 10000
         and a = 10000 and d = 1 and lv = 1 and n = 1
         and s = "projr (stock_loop 10000 10000 2 5 stock_init [(0::nat, Some 100)])"
         and t = "projr (futures_loop 1 2 5 1 futures_init [(0::nat, Some 100)])"]
    thresholds_are_inclusive_as_computed
      [where ops = exact and p = 105 and l = 100 and dp = 2 and pp = 5 and i = 10000
         and a = 10000 and d = 1 and lv = 1 and n = 1
         and s = "projr (stock_loop 10000 10000 2 5 stock_init [(0::nat, Some 100)])"
         and ?s1.0 = "projr (stock_loop 10000 10000 2 5 stock_init [(0::nat, Some 100)])"
         and t = "projr (futures_loop 1 2 5 1 futures_init [(0::nat, Some 100)])"
         and ?t1.0 = "projr (futures_loop 1 2 5 1 futures_init [(0::nat, Some 100)])"]
  unfolding stock_after_one futures_after_one
  by (simp add: stock_add_def futures_add_def Let_def)

section \<open>Every parameter is used as given\<close>

text \<open>
  One bar, written out on the parameters and the state before it: first the bar that
  opens a position, then the bar processed with a position open.
\<close>

lemma stock_bar_fl_opens:
  assumes "0 < p" "\<not> in_position s"
  shows "stock_bar_fl ops i a dp pp s (d, Some p) =
     Inr \<lparr>trades = trades s @
            [\<lparr>date = d, action = BUY_INIT, price = fround ops p 2, cost = Some i, pnl = None,
              shares = fround ops (fdiv ops i p) 4\<rparr>],
          equity = equity s @ [fadd ops (realized_pnl s) (fmul ops (fdiv ops i p) p)],
          realized_pnl = realized_pnl s, last_buy_price = Some p, in_position = True,
          position_cost = i, position_shares = fdiv ops i p\<rparr>"
  using assms
  by (cases s) (simp add: stock_bar_fl_def stock_open_fl_def stock_mark_fl_def Let_def)

lemma stock_bar_fl_held:
  assumes "0 < p" "in_position s" "last_buy_price s = Some l" "l \<noteq> 0"
  shows "stock_bar_fl ops i a dp pp s (d, Some p) =
     (let added = (dp \<le> fmul ops (fdiv ops (fsub ops l p) l) 100);
          q1 = (if added then fadd ops (position_shares s) (fdiv ops a p) else position_shares s);
          c1 = (if added then fadd ops (position_cost s) a else position_cost s);
          t1 = trades s @
            (if added
             then [\<lparr>date = d, action = BUY_ADD, price = fround ops p 2, cost = Some a,
                     pnl = None, shares = fround ops (fdiv ops a p) 4\<rparr>]
             else []);
          gain = fsub ops (fmul ops p q1) c1
      in if 0 < q1 \<and> fmul ops (fdiv ops c1 q1) (fadd ops 1 (fdiv ops pp 100)) \<le> p
         then Inr \<lparr>trades = t1 @
                     [\<lparr>date = d, action = SELL_ALL, price = fround ops p 2, cost = None,
                       pnl = Some (fround ops gain 2), shares = fround ops q1 4\<rparr>],
                   equity = equity s @ [fadd ops (fadd ops (realized_pnl s) gain) 0],
                   realized_pnl = fadd ops (realized_pnl s) gain, last_buy_price = None,
                   in_position = False, position_cost = 0, position_shares = 0\<rparr>
         else Inr \<lparr>trades = t1,
                   equity = equity s @ [fadd ops (realized_pnl s) (fmul ops q1 p)],
                   realized_pnl = realized_pnl s,
                   last_buy_price = Some (if added then p else l), in_position = True,
                   position_cost = c1, position_shares = q1\<rparr>)"
  using assms
  by (cases s)
     (simp add: stock_bar_fl_def stock_add_fl_def stock_sell_fl_def stock_mark_fl_def Let_def)

lemma futures_bar_fl_opens:
  assumes "0 < p" "\<not> in_position s"
  shows "futures_bar_fl ops n dp pp lv s (d, Some p) =
     Inr \<lparr>trades = trades s @
            [\<lparr>date = d, action = BUY_INIT, price = fround ops p 2,
              cost = Some (fround ops (fmul ops (fmul ops (of_int n) p) lv) 2), pnl = None,
              lots = n\<rparr>],
          equity = equity s @
            [fadd ops (realized_pnl s) (fmul ops (fmul ops (of_int n) p) lv)],
          realized_pnl = realized_pnl s, last_buy_price = Some p, in_position = True,
          total_cost = fmul ops (fmul ops (of_int n) p) lv, lots_held = n\<rparr>"
  using assms
  by (cases s) (simp add: futures_bar_fl_def futures_open_fl_def futures_mark_fl_def Let_def)

lemma futures_bar_fl_held:
  assumes "0 < p" "in_position s" "last_buy_price s = Some l" "l \<noteq> 0"
  shows "futures_bar_fl ops n dp pp lv s (d, Some p) =
     (let added = (dp \<le> fmul ops (fdiv ops (fsub ops l p) l) 100);
          n1 = (if added then lots_held s + 1 else lots_held s);
          c1 = (if added then fadd ops (total_cost s) (fmul ops p lv) else total_cost s);
          t1 = trades s @
            (if added
             then [\<lparr>date = d, action = BUY_ADD, price = fround ops p 2,
                     cost = Some (fround ops (fmul ops p lv) 2), pnl = None, lots = n1\<rparr>]
             else []);
          m = fmul ops (of_int n1) lv;
          gain = fsub ops (fmul ops (fmul ops (of_int n1) p) lv) c1
      in if 0 < n1 \<and> m = 0 then Inl ZeroDivisionError
         else if 0 < n1 \<and> fmul ops (fdiv ops c1 m) (fadd ops 1 (fdiv ops pp 100)) \<le> p
         then Inr \<lparr>trades = t1 @
                     [\<lparr>date = d, action = SELL_ALL, price = fround ops p 2, cost = None,
                       pnl = Some (fround ops gain 2), lots = n1\<rparr>],
                   equity = equity s @ [fadd ops (fadd ops (realized_pnl s) gain) 0],
                   realized_pnl = fadd ops (realized_pnl s) gain, last_buy_price = None,
                   in_position = False, total_cost = 0, lots_held = 0\<rparr>
         else Inr \<lparr>trades = t1,
                   equity = equity s @
                     [fadd ops (realized_pnl s) (fmul ops (fmul ops (of_int n1) p) lv)],
                   realized_pnl = realized_pnl s,
                   last_buy_price = Some (if added then p else l), in_position = True,
                   total_cost = c1, lots_held = n1\<rparr>)"
  using assms
  by (cases s)
     (simp add: futures_bar_fl_def futures_add_fl_def futures_sell_fl_def futures_mark_fl_def
        Let_def)

text \<open>A run over valid prices returns, whatever the parameters.\<close>

lemma backtest_stock_fl_returns:
  assumes "0 < p" "\<forall>bar\<in>set bars. valid_bar bar"
  shows "\<exists>ledger curve.
     backtest_stock_fl ops ((d, Some p) # bars) i a dp pp = Inr (ledger, curve) \<and>
     length curve = Suc (length bars) \<and>
     hd ledger = \<lparr>date = d, action = BUY_INIT, price = fround ops p 2, cost = Some i,
                   pnl = None, shares = fround ops (fdiv ops i p) 4\<rparr>"
proof -
  define s1 :: "'a stock_state" where
    "s1 = \<lparr>trades = [\<lparr>date = d, action = BUY_INIT, price = fround ops p 2, cost = Some i,
              pnl = None, shares = fround ops (fdiv ops i p) 4\<rparr>],
          equity = [fadd ops 0 (fmul ops (fdiv ops i p) p)],
          realized_pnl = 0, last_buy_price = Some p, in_position = True,
          position_cost = i, position_shares = fdiv ops i p\<rparr>"
  have b: "stock_bar_fl ops i a dp pp stock_init (d, Some p) = Inr s1"
    using stock_bar_fl_opens [OF assms(1), of stock_init ops i a dp pp d]
    by (simp add: stock_init_def s1_def)
  have ok: "entry_ok s1" using assms(1) by (simp add: entry_ok_def s1_def)
  from stock_loop_fl_total [OF ok, of ops i a dp pp bars] obtain s' ts where
    s': "stock_loop_fl ops i a dp pp s1 bars = Inr s'"
        "length (equity s') = length (equity s1) + length (filter valid_bar bars)"
        "trades s' = trades s1 @ ts"
    by blast
  from assms(2) have len: "length (filter valid_bar bars) = length bars"
    by (simp add: length_filter_all)
  have "hd (trades s') = hd (trades s1)" using s'(3) by (simp add: s1_def)
  then show ?thesis using b s' len
    by (simp add: backtest_stock_fl_def pd_Series_def s1_def)
qed

lemma backtest_futures_fl_returns:
  assumes "0 < p" "\<forall>bar\<in>set bars. valid_bar bar" "\<forall>k. 0 < k \<longrightarrow> fmul ops (of_int k) lv \<noteq> 0"
  shows "\<exists>ledger curve.
     backtest_futures_fl ops ((d, Some p) # bars) n dp pp lv = Inr (ledger, curve) \<and>
     length curve = Suc (length bars) \<and>
     hd ledger = \<lparr>date = d, action = BUY_INIT, price = fround ops p 2,
                   cost = Some (fround ops (fmul ops (fmul ops (of_int n) p) lv) 2),
                   pnl = None, lots = n\<rparr>"
proof -
  define s1 :: "'a futures_state" where
    "s1 = \<lparr>trades = [\<lparr>date = d, action = BUY_INIT, price = fround ops p 2,
              cost = Some (fround ops (fmul ops (fmul ops (of_int n) p) lv) 2),
              pnl = None, lots = n\<rparr>],
          equity = [fadd ops 0 (fmul ops (fmul ops (of_int n) p) lv)],
          realized_pnl = 0, last_buy_price = Some p, in_position = True,
          total_cost = fmul ops (fmul ops (of_int n) p) lv, lots_held = n\<rparr>"
  have b: "futures_bar_fl ops n dp pp lv futures_init (d, Some p) = Inr s1"
    using futures_bar_fl_opens [OF assms(1), of futures_init ops n dp pp lv d]
    by (simp add: futures_init_def s1_def)
  have ok: "entry_ok s1" using assms(1) by (simp add: entry_ok_def s1_def)
  from futures_loop_fl_total [OF ok assms(3), of n dp pp bars] obtain s' ts where
    s': "futures_loop_fl ops n dp pp lv s1 bars = Inr s'"
        "length (equity s') = length (equity s1) + length (filter valid_bar bars)"
        "trades s' = trades s1 @ ts"
    by blast
  from assms(2) have len: "length (filter valid_bar bars) = length bars"
    by (simp add: length_filter_all)
  have "hd (trades s') = hd (trades s1)" using s'(3) by (simp add: s1_def)
  then show ?thesis using b s' len
    by (simp add: backtest_futures_fl_def pd_Series_def s1_def)
qed

text \<open>
  C3. The claim: a configuration with a non-positive initial or add amount, or with a
  drop or profit percentage outside (0,100], is rejected with a configuration error
  before the run starts, and is neither clamped nor run. Neither function looks at its
  parameters before the loop (lines 24 to 32, 89 to 97), and the bounds that exist are
  those of the input widgets (lines 176 to 179). As amended: no configuration is
  rejected and no parameter is clamped. For every initial amount, add amount, lot
  count, lot value, drop percentage and profit percentage, and in every arithmetic, a
  run over valid prices returns a ledger and a curve with one point per bar (in the
  futures engine, when no product \<^verbatim>\<open>lots * lot_value\<close> of a positive lot count is 0); the
  bar that opens a position buys for the initial amount itself (the initial lots
  themselves); and a bar processed with a position open adds exactly when the drawdown
  is at least the drop percentage as given, for the add amount as given (one lot), and
  sells exactly when the price is at least the average price times
  (1 + the profit percentage as given / 100).
\<close>

theorem configuration_is_used_as_given:
  "(0 < p \<and> (\<forall>bar\<in>set bars. valid_bar bar) \<longrightarrow>
      (\<exists>ledger curve.
         backtest_stock_fl ops ((d, Some p) # bars) i a dp pp = Inr (ledger, curve) \<and>
         length curve = Suc (length bars) \<and>
         hd ledger = \<lparr>date = d, action = BUY_INIT, price = fround ops p 2, cost = Some i,
                       pnl = None, shares = fround ops (fdiv ops i p) 4\<rparr>)) \<and>
   (0 < p \<and> \<not> in_position s \<longrightarrow>
      stock_bar_fl ops i a dp pp s (d, Some p) =
        Inr \<lparr>trades = trades s @
               [\<lparr>date = d, action = BUY_INIT, price = fround ops p 2, cost = Some i,
                 pnl = None, shares = fround ops (fdiv ops i p) 4\<rparr>],
             equity = equity s @ [fadd ops (realized_pnl s) (fmul ops (fdiv ops i p) p)],
             realized_pnl = realized_pnl s, last_buy_price = Some p, in_position = True,
             position_cost = i, position_shares = fdiv ops i p\<rparr>) \<and>
   (0 < p \<and> in_position h \<and> last_buy_price h = Some l \<and> l \<noteq> 0 \<longrightarrow>
      stock_bar_fl ops i a dp pp h (d, Some p) =
        (let added = (dp \<le> fmul ops (fdiv ops (fsub ops l p) l) 100);
             q1 = (if added then fadd ops (position_shares h) (fdiv ops a p)
                   else position_shares h);
             c1 = (if added then fadd ops (position_cost h) a else position_cost h);
             t1 = trades h @
               (if added
                then [\<lparr>date = d, action = BUY_ADD, price = fround ops p 2, cost = Some a,
                        pnl = None, shares = fround ops (fdiv ops a p) 4\<rparr>]
                else []);
             gain = fsub ops (fmul ops p q1) c1
         in if 0 < q1 \<and> fmul ops (fdiv ops c1 q1) (fadd ops 1 (fdiv ops pp 100)) \<le> p
            then Inr \<lparr>trades = t1 @
                        [\<lparr>date = d, action = SELL_ALL, price = fround ops p 2, cost = None,
                          pnl = Some (fround ops gain 2), shares = fround ops q1 4\<rparr>],
                      equity = equity h @ [fadd ops (fadd ops (realized_pnl h) gain) 0],
                      realized_pnl = fadd ops (realized_pnl h) gain, last_buy_price = None,
                      in_position = False, position_cost = 0, position_shares = 0\<rparr>
            else Inr \<lparr>trades = t1,
                      equity = equity h @ [fadd ops (realized_pnl h) (fmul ops q1 p)],
                      realized_pnl = realized_pnl h,
                      last_buy_price = Some (if added then p else l), in_position = True,
                      position_cost = c1, position_shares = q1\<rparr>)) \<and>
   (0 < p \<and> (\<forall>bar\<in>set bars. valid_bar bar) \<and>
    (\<forall>k. 0 < k \<longrightarrow> fmul ops (of_int k) lv \<noteq> 0) \<longrightarrow>
      (\<exists>ledger curve.
         backtest_futures_fl ops ((d, Some p) # bars) n dp pp lv = Inr (ledger, curve) \<and>
         length curve = Suc (length bars) \<and>
         hd ledger = \<lparr>date = d, action = BUY_INIT, price = fround ops p 2,
                       cost = Some (fround ops (fmul ops (fmul ops (of_int n) p) lv) 2),
                       pnl = None, lots = n\<rparr>)) \<and>
   (0 < p \<and> \<not> in_position t \<longrightarrow>
      futures_bar_fl ops n dp pp lv t (d, Some p) =
        Inr \<lparr>trades = trades t @
               [\<lparr>date = d, action = BUY_INIT, price = fround ops p 2,
                 cost = Some (fround ops (fmul ops (fmul ops (of_int n) p) lv) 2), pnl = None,
                 lots = n\<rparr>],
             equity = equity t @
               [fadd ops (realized_pnl t) (fmul ops (fmul ops (of_int n) p) lv)],
             realized_pnl = realized_pnl t, last_buy_price = Some p, in_position = True,
             total_cost = fmul ops (fmul ops (of_int n) p) lv, lots_held = n\<rparr>) \<and>
   (0 < p \<and> in_position g \<and> last_buy_price g = Some l \<and> l \<noteq> 0 \<longrightarrow>
      futures_bar_fl ops n dp pp lv g (d, Some p) =
        (let added = (dp \<le> fmul ops (fdiv ops (fsub ops l p) l) 100);
             n1 = (if added then lots_held g + 1 else lots_held g);
             c1 = (if added then fadd ops (total_cost g) (fmul ops p lv) else total_cost g);
             t1 = trades g @
               (if added
                then [\<lparr>date = d, action = BUY_ADD, price = fround ops p 2,
                        cost = Some (fround ops (fmul ops p lv) 2), pnl = None, lots = n1\<rparr>]
                else []);
             m = fmul ops (of_int n1) lv;
             gain = fsub ops (fmul ops (fmul ops (of_int n1) p) lv) c1
         in if 0 < n1 \<and> m = 0 then Inl ZeroDivisionError
            else if 0 < n1 \<and> fmul ops (fdiv ops c1 m) (fadd ops 1 (fdiv ops pp 100)) \<le> p
            then Inr \<lparr>trades = t1 @
                        [\<lparr>date = d, action = SELL_ALL, price = fround ops p 2, cost = None,
                          pnl = Some (fround ops gain 2), lots = n1\<rparr>],
                      equity = equity g @ [fadd ops (fadd ops (realized_pnl g) gain) 0],
                      realized_pnl = fadd ops (realized_pnl g) gain, last_buy_price = None,
                      in_position = False, total_cost = 0, lots_held = 0\<rparr>
            else Inr \<lparr>trades = t1,
                      equity = equity g @
                        [fadd ops (realized_pnl g) (fmul ops (fmul ops (of_int n1) p) lv)],
                      realized_pnl = realized_pnl g,
                      last_buy_price = Some (if added then p else l), in_position = True,
                      total_cost = c1, lots_held = n1\<rparr>))"
proof -
  note A = backtest_stock_fl_returns [of p bars ops d i a dp pp]
  note B = stock_bar_fl_opens [of p s ops i a dp pp d]
  note C = stock_bar_fl_held [of p h l ops i a dp pp d]
  note D = backtest_futures_fl_returns [of p bars ops lv d n dp pp]
  note E = futures_bar_fl_opens [of p t ops n dp pp lv d]
  note F = futures_bar_fl_held [of p g l ops n dp pp lv d]
  show ?thesis
  proof (intro conjI)
    show "0 < p \<and> (\<forall>bar\<in>set bars. valid_bar bar) \<longrightarrow>
      (\<exists>ledger curve.
         backtest_stock_fl ops ((d, Some p) # bars) i a dp pp = Inr (ledger, curve) \<and>
         length curve = Suc (length bars) \<and>
         hd ledger = \<lparr>date = d, action = BUY_INIT, price = fround ops p 2, cost = Some i,
                       pnl = None, shares = fround ops (fdiv ops i p) 4\<rparr>)"
      using A by blast
  next
    show "0 < p \<and> (\<forall>bar\<in>set bars. valid_bar bar) \<and>
        (\<forall>k. 0 < k \<longrightarrow> fmul ops (of_int k) lv \<noteq> 0) \<longrightarrow>
      (\<exists>ledger curve.
         backtest_futures_fl ops ((d, Some p) # bars) n dp pp lv = Inr (ledger, curve) \<and>
         length curve = Suc (length bars) \<and>
         hd ledger = \<lparr>date = d, action = BUY_INIT, price = fround ops p 2,
                       cost = Some (fround ops (fmul ops (fmul ops (of_int n) p) lv) 2),
                       pnl = None, lots = n\<rparr>)"
      using D by blast
  qed (use B C E F in blast)+
qed

text \<open>
  The theorem in the exact arithmetic at a configuration outside every range of the
  specification: amounts of \<open>-8\<close>, \<open>-2\<close> initial lots, a drop percentage of \<open>-50\<close> and a
  profit percentage of 150, on a bar at 128, from the initial state and from the state
  after a first buy at 100. The add at 128, a rise, is for \<open>-8\<close>.
\<close>

theorem configuration_is_used_as_given_witness:
  "(0::real) < 128 \<and> valid_bar (2::nat, Some (240::real)) \<and> (100::real) \<noteq> 0 \<and>
   (\<exists>ledger curve.
      backtest_stock_fl exact [(1::nat, Some 128), (2, Some 240)] (- 8) (- 8) (- 50) 150 =
        Inr (ledger, curve) \<and>
      length curve = Suc 1 \<and>
      hd ledger = \<lparr>date = 1, action = BUY_INIT, price = 128, cost = Some (- 8), pnl = None,
                    shares = - 0.0625\<rparr>) \<and>
   stock_bar_fl exact (- 8) (- 8) (- 50) 150 stock_init (1::nat, Some 128) =
     Inr \<lparr>trades = [\<lparr>date = 1, action = BUY_INIT, price = 128, cost = Some (- 8), pnl = None,
                       shares = - 0.0625\<rparr>],
          equity = [- 8], realized_pnl = 0, last_buy_price = Some 128, in_position = True,
          position_cost = - 8, position_shares = - 0.0625\<rparr> \<and>
   in_position (projr (stock_loop 10000 10000 2 5 stock_init [(0::nat, Some 100)])) \<and>
   stock_bar_fl exact (- 8) (- 8) (- 50) 150
       (projr (stock_loop 10000 10000 2 5 stock_init [(0::nat, Some 100)])) (1, Some 128) =
     Inr \<lparr>trades =
            [\<lparr>date = 0, action = BUY_INIT, price = 100, cost = Some 10000, pnl = None,
               shares = 100\<rparr>,
             \<lparr>date = 1, action = BUY_ADD, price = 128, cost = Some (- 8), pnl = None,
               shares = - 0.0625\<rparr>],
          equity = [10000, 12792], realized_pnl = 0, last_buy_price = Some 128,
          in_position = True, position_cost = 9992, position_shares = 99.9375\<rparr> \<and>
   (\<exists>ledger curve.
      backtest_futures_fl exact [(1::nat, Some 128), (2, Some 240)] (- 2) (- 50) 150 1 =
        Inr (ledger, curve) \<and>
      length curve = Suc 1 \<and>
      hd ledger = \<lparr>date = 1, action = BUY_INIT, price = 128, cost = Some (- 256), pnl = None,
                    lots = - 2\<rparr>) \<and>
   futures_bar_fl exact (- 2) (- 50) 150 1 futures_init (1::nat, Some 128) =
     Inr \<lparr>trades = [\<lparr>date = 1, action = BUY_INIT, price = 128, cost = Some (- 256),
                       pnl = None, lots = - 2\<rparr>],
          equity = [- 256], realized_pnl = 0, last_buy_price = Some 128, in_position = True,
          total_cost = - 256, lots_held = - 2\<rparr> \<and>
   in_position (projr (futures_loop 1 2 5 1 futures_init [(0::nat, Some 100)])) \<and>
   futures_bar_fl exact (- 2) (- 50) 150 1
       (projr (futures_loop 1 2 5 1 futures_init [(0::nat, Some 100)])) (1, Some 128) =
     Inr \<lparr>trades =
            [\<lparr>date = 0, action = BUY_INIT, price = 100, cost = Some 100, pnl = None, lots = 1\<rparr>,
             \<lparr>date = 1, action = BUY_ADD, price = 128, cost = Some 128, pnl = None, lots = 2\<rparr>],
          equity = [100, 256], realized_pnl = 0, last_buy_price = Some 128,
          in_position = True, total_cost = 228, lots_held = 2\<rparr>"
  using configuration_is_used_as_given
    [where ops = exact and p = 128 and d = 1 and bars = "[(2::nat, Some 240)]"
       and i = "- 8" and a = "- 8" and dp = "- 50" and pp = 150 and n = "- 2" and lv = 1
       and l = 100
       and s = stock_init
       and h = "projr (stock_loop 10000 10000 2 5 stock_init [(0::nat, Some 100)])"
       and t = futures_init
       and g = "projr (futures_loop 1 2 5 1 futures_init [(0::nat, Some 100)])"]
  unfolding stock_after_one futures_after_one
  by (simp add: valid_bar_def stock_init_def futures_init_def py_round_def Let_def)

text \<open>
  C3 as stated fails. With an add amount of \<open>-8\<close>, a drop percentage of \<open>-50\<close> and a
  profit percentage of 150 the stock engine runs on the prices 100, 128, 240: it adds
  for \<open>-8\<close> on the rise to 128 and holds at 240. With an initial amount of \<open>-8\<close> as well it
  opens at a cost of \<open>-8\<close>.
\<close>

theorem invalid_configurations_run:
  "backtest_stock [(0::nat, Some 100), (1, Some 128), (2, Some 240)] 10000 (- 8) (- 50) 150 =
     Inr ([\<lparr>date = 0, action = BUY_INIT, price = 100, cost = Some 10000, pnl = None,
             shares = 100\<rparr>,
           \<lparr>date = 1, action = BUY_ADD, price = 128, cost = Some (- 8), pnl = None,
             shares = - 0.0625\<rparr>],
          [(0, 10000), (1, 12792), (2, 23985)]) \<and>
   backtest_stock [(0::nat, Some 128), (1, Some 64)] (- 8) (- 8) (- 50) 150 =
     Inr ([\<lparr>date = 0, action = BUY_INIT, price = 128, cost = Some (- 8), pnl = None,
             shares = - 0.0625\<rparr>,
           \<lparr>date = 1, action = BUY_ADD, price = 64, cost = Some (- 8), pnl = None,
             shares = - 0.125\<rparr>],
          [(0, - 8), (1, - 12)])"
  by (simp add: stock_defs)

section \<open>Realized profit, on the values as computed\<close>

























end
